theory Spec2Isabelle
  imports Main "HOL-Library.Sublist" "HOL-Library.Char_ord" "HOL-Library.List_Lexorder"
begin

chapter \<open>The model\<close>

section \<open>API objects and errors\<close>

text \<open>
  The errors the admission plugins return: \<^verbatim>\<open>apierrors.NewBadRequest\<close>,
  \<^verbatim>\<open>admission.NewForbidden\<close>, \<^verbatim>\<open>apierrors.NewInternalError\<close>, and a plain
  \<^verbatim>\<open>error\<close> (\<^verbatim>\<open>errors.New\<close>, \<^verbatim>\<open>fmt.Errorf\<close>). The argument is the message. A Go
  result \<^verbatim>\<open>error\<close> is a \<open>StatusError option\<close>: \<open>None\<close> is \<^verbatim>\<open>nil\<close>.
\<close>

datatype StatusError =
    BadRequest string
  | Forbidden string
  | InternalError string
  | PlainError string

fun isBadRequest :: "StatusError option \<Rightarrow> bool" where
  "isBadRequest (Some (BadRequest m)) = True"
| "isBadRequest e = False"


text \<open>
  \<^verbatim>\<open>field.Error\<close> of the Kubernetes validation library: the error type, the path of the
  field (the path elements in order), the offending value and the detail.
\<close>

datatype ErrorType =
    ErrorTypeRequired
  | ErrorTypeDuplicate
  | ErrorTypeInvalid
  | ErrorTypeNotSupported
  | ErrorTypeForbidden

record 'v FieldError =
  feType :: ErrorType
  feField :: "string list"
  feBadValue :: 'v
  feDetail :: string

text \<open>
  The fields of \<^verbatim>\<open>core.Shoot\<close> that the modelled code reads. The record extensions
  (\<open>'m\<close> for the metadata, \<open>'s\<close> for the specification) stand for all the other fields,
  so that \<^verbatim>\<open>reflect.DeepEqual\<close> on \<^verbatim>\<open>ObjectMeta\<close> and on \<^verbatim>\<open>Spec\<close> is equality of
  the records. Pointers are options.
\<close>

record DNSProvider =
  dpType :: "string option"
  dpPrimary :: "bool option"

record DNS =
  dnsDomain :: "string option"
  dnsProviders :: "DNSProvider list"

record OIDCConfig =
  oidcClientID :: "string option"
  oidcIssuerURL :: "string option"

record KubeAPIServerConfig =
  kasOIDCConfig :: "OIDCConfig option"

record ObjectMeta =
  omName :: string
  omNamespace :: string
  omLabels :: "(string \<times> string) list"

record ShootSpec =
  specCloudProfileName :: string
  specSeedName :: "string option"
  specProviderType :: string
  specDNS :: "DNS option"
  specKubeAPIServer :: "KubeAPIServerConfig option"

record ('m, 's) Shoot =
  shootObjectMeta :: "'m ObjectMeta_scheme"
  shootSpec :: "'s ShootSpec_scheme"

abbreviation shootName :: "('m, 's) Shoot \<Rightarrow> string" where
  "shootName shoot \<equiv> omName (shootObjectMeta shoot)"

abbreviation shootNamespace :: "('m, 's) Shoot \<Rightarrow> string" where
  "shootNamespace shoot \<equiv> omNamespace (shootObjectMeta shoot)"

text \<open>
  \<^verbatim>\<open>admission.Attributes\<close>: the kind, the subresource, the operation, and the new and old
  objects. \<open>OtherObject\<close> is an object on which the type assertion
  \<^verbatim>\<open>.(*core.Shoot)\<close> fails.
\<close>

record GroupKind =
  gkGroup :: string
  gkKind :: string

definition core_GroupName :: string where
  "core_GroupName = ''core.gardener.cloud''"

definition core_Kind :: "string \<Rightarrow> GroupKind" where
  "core_Kind kind = \<lparr>gkGroup = core_GroupName, gkKind = kind\<rparr>"

datatype Operation = Create | Update | Delete | Connect

datatype ('m, 's) Object = ShootObject "('m, 's) Shoot" | OtherObject

record ('m, 's) Attributes =
  attrKind :: GroupKind
  attrSubresource :: string
  attrOperation :: Operation
  attrObject :: "('m, 's) Object"
  attrOldObject :: "('m, 's) Object"

record Project =
  prName :: string
  prDeletionTimestamp :: "int option"

section \<open>Shoot validator: machine types against the cloud profile\<close>

text \<open>
  The parts of \<^verbatim>\<open>core.MachineType\<close>, \<^verbatim>\<open>core.AvailabilityZone\<close> and
  \<^verbatim>\<open>core.Region\<close> that \<^verbatim>\<open>validateMachineTypes\<close> reads. \<^verbatim>\<open>Usable\<close> is a
  \<^verbatim>\<open>*bool\<close>: \<open>None\<close> is the nil pointer.
\<close>

record MachineType =
  mtName :: string
  mtUsable :: "bool option"

record AvailabilityZone =
  azName :: string
  azUnavailableMachineTypes :: "string list"
  azUnavailableVolumeTypes :: "string list"

record Region =
  regName :: string
  regZones :: "AvailabilityZone list"

text \<open>
  The labelled loop \<^verbatim>\<open>top\<close> of \<^verbatim>\<open>validateMachineTypes\<close>, innermost loop first. Each
  function returns \<open>True\<close> exactly when its loop reaches
  \<^verbatim>\<open>unavailableInAtLeastOneZone = true; break top\<close>.
\<close>

fun unavailableTypesLoop :: "string list \<Rightarrow> string \<Rightarrow> bool" where
  "unavailableTypesLoop [] machineType = False"
| "unavailableTypesLoop (t # ts) machineType =
     (if t = machineType then True else unavailableTypesLoop ts machineType)"

fun regionZonesLoop :: "AvailabilityZone list \<Rightarrow> string \<Rightarrow> string \<Rightarrow> bool" where
  "regionZonesLoop [] zoneName machineType = False"
| "regionZonesLoop (z # zs) zoneName machineType =
     (if azName z \<noteq> zoneName then regionZonesLoop zs zoneName machineType
      else if unavailableTypesLoop (azUnavailableMachineTypes z) machineType then True
      else regionZonesLoop zs zoneName machineType)"

fun zoneNamesLoop :: "string list \<Rightarrow> AvailabilityZone list \<Rightarrow> string \<Rightarrow> bool" where
  "zoneNamesLoop [] rzones machineType = False"
| "zoneNamesLoop (zoneName # zoneNames) rzones machineType =
     (if regionZonesLoop rzones zoneName machineType then True
      else zoneNamesLoop zoneNames rzones machineType)"

fun regionsLoop :: "Region list \<Rightarrow> string \<Rightarrow> string list \<Rightarrow> string \<Rightarrow> bool" where
  "regionsLoop [] region zones machineType = False"
| "regionsLoop (r # rs) region zones machineType =
     (if regName r \<noteq> region then regionsLoop rs region zones machineType
      else if zoneNamesLoop zones (regZones r) machineType then True
      else regionsLoop rs region zones machineType)"

text \<open>
  The second loop, over the cloud profile's machine types, with the accumulated
  \<^verbatim>\<open>validValues\<close>. \<^verbatim>\<open>return true, nil\<close> is \<open>(True, [])\<close>.
\<close>

fun constraintsLoop ::
  "MachineType list \<Rightarrow> bool \<Rightarrow> string \<Rightarrow> string list \<Rightarrow> bool \<times> string list" where
  "constraintsLoop [] unavailableInAtLeastOneZone machineType validValues = (False, validValues)"
| "constraintsLoop (t # ts) unavailableInAtLeastOneZone machineType validValues =
     (if mtUsable t = Some False
        then constraintsLoop ts unavailableInAtLeastOneZone machineType validValues
      else if unavailableInAtLeastOneZone
        then constraintsLoop ts unavailableInAtLeastOneZone machineType validValues
      else (let validValues' = validValues @ [mtName t]
            in if mtName t = machineType then (True, [])
               else constraintsLoop ts unavailableInAtLeastOneZone machineType validValues'))"

definition validateMachineTypes ::
  "MachineType list \<Rightarrow> string \<Rightarrow> string \<Rightarrow> Region list \<Rightarrow> string \<Rightarrow> string list
    \<Rightarrow> bool \<times> string list" where
  "validateMachineTypes constraints machineType oldMachineType regions region zones =
     (if machineType = oldMachineType then (True, [])
      else constraintsLoop constraints (regionsLoop regions region zones machineType)
             machineType [])"

section \<open>Shoot validator: uniqueness of the DNS domain\<close>

text \<open>
  \<^verbatim>\<open>hasDomainIntersection\<close>. \<^verbatim>\<open>len\<close> of a Go string counts bytes, as \<open>length\<close> of a
  \<open>string\<close> does; \<^verbatim>\<open>strings.HasPrefix\<close> and \<^verbatim>\<open>strings.HasSuffix\<close> are \<open>prefix\<close> and
  \<open>suffix\<close>.
\<close>

definition hasDomainIntersection :: "string \<Rightarrow> string \<Rightarrow> bool" where
  "hasDomainIntersection domainA domainB =
     (if domainA = domainB then True
      else (let (short, long) =
                  (if length domainA > length domainB then (domainB, domainA)
                   else (domainA, domainB));
                short' = (if \<not> prefix ''.'' short then ''.'' @ short else short)
            in suffix short' long))"

definition dnsPath :: "string list" where
  "dnsPath = [''spec'', ''dns'', ''domain'']"

definition field_Duplicate :: "string list \<Rightarrow> string \<Rightarrow> string FieldError" where
  "field_Duplicate path v =
     \<lparr>feType = ErrorTypeDuplicate, feField = path, feBadValue = v, feDetail = []\<rparr>"

definition field_Forbidden :: "string list \<Rightarrow> string \<Rightarrow> string FieldError" where
  "field_Forbidden path detail =
     \<lparr>feType = ErrorTypeForbidden, feField = path, feBadValue = [], feDetail = detail\<rparr>"

definition shootDomain :: "('m, 's) Shoot \<Rightarrow> string option" where
  "shootDomain shoot =
     (case specDNS (shootSpec shoot) of None \<Rightarrow> None | Some dns \<Rightarrow> dnsDomain dns)"

text \<open>
  The loop of \<^verbatim>\<open>validateDNSDomainUniqueness\<close> over the listed shoots, for the domain
  \<open>d\<close> of the admitted shoot. Both \<^verbatim>\<open>break\<close>s leave the loop with one more error.
\<close>

fun uniquenessLoop ::
  "('m, 's) Shoot list \<Rightarrow> string \<Rightarrow> string \<Rightarrow> string FieldError list
    \<Rightarrow> string FieldError list" where
  "uniquenessLoop [] name d allErrs = allErrs"
| "uniquenessLoop (shoot # shoots) name d allErrs =
     (if shootName shoot = name then uniquenessLoop shoots name d allErrs
      else (case shootDomain shoot of
              None \<Rightarrow> uniquenessLoop shoots name d allErrs
            | Some domain \<Rightarrow>
                if domain = d then allErrs @ [field_Duplicate dnsPath d]
                else if hasDomainIntersection domain d
                  then allErrs @ [field_Forbidden dnsPath
                    ''the domain is already used by another shoot or it is a subdomain of an already used domain'']
                else uniquenessLoop shoots name d allErrs))"

text \<open>
  \<^verbatim>\<open>validateDNSDomainUniqueness\<close>. The first argument is what
  \<^verbatim>\<open>shootLister.Shoots(metav1.NamespaceAll).List(labels.Everything())\<close> returns: the
  shoots of all namespaces, or the error of the lister. The lister is asked only when the
  domain is set.
\<close>

definition validateDNSDomainUniqueness ::
  "string + ('m, 's) Shoot list \<Rightarrow> string \<Rightarrow> DNS option
    \<Rightarrow> string FieldError list \<times> string option" where
  "validateDNSDomainUniqueness listed name dns =
     (case dns of
        None \<Rightarrow> ([], None)
      | Some dns' \<Rightarrow>
          (case dnsDomain dns' of
             None \<Rightarrow> ([], None)
           | Some d \<Rightarrow>
               (case listed of
                  Inl err \<Rightarrow> ([], Some err)
                | Inr shoots \<Rightarrow> (uniquenessLoop shoots name d [], None))))"



section \<open>Shoot validator: the admission handler\<close>

record CloudProfile =
  cpSpecType :: string
  cpMachineTypes :: "MachineType list"
  cpRegions :: "Region list"

record Seed =
  seedName :: string
  seedDeletionTimestamp :: "int option"
  seedTaintKeys :: "string list"

text \<open>
  The plugin \<^verbatim>\<open>ValidateShoot\<close> with what its environment answers: \<open>vsReady\<close> is the
  result of \<^verbatim>\<open>WaitForReady()\<close>; the listers return the object or the message of their
  error; \<open>vsShootLister\<close> is the list of the shoots of all namespaces;
  \<open>vsGetProject\<close> is \<^verbatim>\<open>admissionutils.GetProject\<close> on the project lister, for a
  namespace.
\<close>

record ('m, 's) ValidateShoot =
  vsReady :: bool
  vsCloudProfileLister :: "string \<Rightarrow> string + CloudProfile"
  vsSeedLister :: "string \<Rightarrow> string + Seed"
  vsShootLister :: "string + ('m, 's) Shoot list"
  vsGetProject :: "string \<Rightarrow> string + Project"

text \<open>
  A step of \<^verbatim>\<open>Admit\<close> either returns (\<open>Some r\<close>, with the returned \<^verbatim>\<open>error\<close>
  \<open>r\<close>) or goes on (\<open>None\<close>).

  The block \<^verbatim>\<open>if a.GetOperation() == admission.Update\<close>.
\<close>

definition admitUpdateBlock :: "('m, 's) Attributes \<Rightarrow> StatusError option option" where
  "admitUpdateBlock a =
     (if attrOperation a = Update then
        (case attrObject a of
           OtherObject \<Rightarrow>
             Some (Some (InternalError ''could not convert resource into Shoot object''))
         | ShootObject newShoot \<Rightarrow>
             (case attrOldObject a of
                OtherObject \<Rightarrow>
                  Some (Some (InternalError ''could not convert old resource into Shoot object''))
              | ShootObject oldShoot \<Rightarrow>
                  if shootSpec newShoot = shootSpec oldShoot
                     \<and> shootObjectMeta newShoot = shootObjectMeta oldShoot
                    then Some None
                  else if specProviderType (shootSpec newShoot)
                          \<noteq> specProviderType (shootSpec oldShoot)
                    then Some (Some (BadRequest
                           ''shoot provider type was changed which is not allowed''))
                  else None))
      else None)"

text \<open>The \<^verbatim>\<open>switch a.GetOperation()\<close> with its only case, \<^verbatim>\<open>admission.Create\<close>.\<close>

definition lengthLimit :: nat where
  "lengthLimit = 21"

definition admitCreateSwitch ::
  "Operation \<Rightarrow> Project \<Rightarrow> ('m, 's) Shoot \<Rightarrow> StatusError option option" where
  "admitCreateSwitch operation project shoot =
     (case operation of
        Create \<Rightarrow>
          if length (prName project @ shootName shoot) > lengthLimit
            then Some (Some (BadRequest
              (''the length of the shoot name and the project name must not exceed 21 characters (project: ''
                @ prName project @ ''; shoot: '' @ shootName shoot @ '')'')))
          else if sublist ''--'' (prName project)
            then Some (Some (BadRequest
              (''the project name must not contain two consecutive hyphens (project: ''
                @ prName project @ '')'')))
          else if prDeletionTimestamp project \<noteq> None
            then Some (Some (Forbidden
              (''cannot create shoot '' @ [CHR 0x27] @ shootName shoot @ [CHR 0x27]
                @ '' in project '' @ [CHR 0x27] @ prName project @ [CHR 0x27]
                @ '' already marked for deletion'')))
          else None
      | _ \<Rightarrow> None)"

text \<open>
  The end of \<^verbatim>\<open>Admit\<close>: the uniqueness of the domain, then the collected errors.
  \<open>allErrs\<close> are the errors collected before.
\<close>

definition admitDNSAndFinish ::
  "('m, 's) ValidateShoot \<Rightarrow> ('m, 's) Shoot \<Rightarrow> string FieldError list
    \<Rightarrow> StatusError option" where
  "admitDNSAndFinish v shoot allErrs =
     (case validateDNSDomainUniqueness (vsShootLister v) (shootName shoot)
             (specDNS (shootSpec shoot)) of
        (dnsErrors, Some err) \<Rightarrow> Some (InternalError err)
      | (dnsErrors, None) \<Rightarrow>
          if length (allErrs @ dnsErrors) > 0 then Some (Forbidden ''validation errors'')
          else None)"

text \<open>
  \<^verbatim>\<open>ValidateShoot.Admit\<close>. The checks between the \<^verbatim>\<open>switch\<close> and the call of
  \<^verbatim>\<open>validateDNSDomainUniqueness\<close> (the protected seed, the deletion of the seed, the
  provider type, the finalizer, the hibernation, the defaults of networks and images,
  \<^verbatim>\<open>validateProvider\<close>) are the parameter \<open>checks\<close>: from the request, the cloud profile
  and the seed they return an error (\<open>Inl\<close>) or the collected \<^verbatim>\<open>allErrs\<close> (\<open>Inr\<close>).
  They read neither the project nor the shoot lister, and they change neither the name
  nor \<^verbatim>\<open>.spec.dns\<close> of the shoot. The result is the returned \<^verbatim>\<open>error\<close>.
\<close>

definition ValidateShoot_Admit ::
  "('m, 's) ValidateShoot
    \<Rightarrow> (('m, 's) Attributes \<Rightarrow> CloudProfile \<Rightarrow> Seed option
          \<Rightarrow> StatusError + string FieldError list)
    \<Rightarrow> ('m, 's) Attributes \<Rightarrow> StatusError option" where
  "ValidateShoot_Admit v checks a =
     (if \<not> vsReady v then Some (Forbidden ''not yet ready to handle request'')
      else if attrKind a \<noteq> core_Kind ''Shoot'' then None
      else if attrSubresource a \<noteq> [] then None
      else (case admitUpdateBlock a of
        Some r \<Rightarrow> r
      | None \<Rightarrow>
      (case attrObject a of
        OtherObject \<Rightarrow> Some (InternalError ''could not convert resource into Shoot object'')
      | ShootObject shoot \<Rightarrow>
      (case vsCloudProfileLister v (specCloudProfileName (shootSpec shoot)) of
        Inl err \<Rightarrow> Some (BadRequest (''could not find referenced cloud profile: '' @ err))
      | Inr cloudProfile \<Rightarrow>
      (case (case specSeedName (shootSpec shoot) of
               None \<Rightarrow> Inr None
             | Some name \<Rightarrow> map_sum id Some (vsSeedLister v name)) of
        Inl err \<Rightarrow> Some (BadRequest (''could not find referenced seed: '' @ err))
      | Inr seed \<Rightarrow>
      (case vsGetProject v (shootNamespace shoot) of
        Inl err \<Rightarrow> Some (BadRequest (''could not find referenced project: '' @ err))
      | Inr project \<Rightarrow>
      (case admitCreateSwitch (attrOperation a) project shoot of
        Some r \<Rightarrow> r
      | None \<Rightarrow>
      (case checks a cloudProfile seed of
        Inl err \<Rightarrow> Some err
      | Inr allErrs \<Rightarrow> admitDNSAndFinish v shoot allErrs))))))))"

section \<open>Validation of a Seed update\<close>

text \<open>
  The fields of \<^verbatim>\<open>garden.SeedSpec\<close> that \<^verbatim>\<open>ValidateSeedSpecUpdate\<close> reads:
  \<^verbatim>\<open>Networks.Pods\<close> and \<^verbatim>\<open>Networks.Services\<close> are strings, \<^verbatim>\<open>Networks.Nodes\<close> and
  \<^verbatim>\<open>Backup.Region\<close> are \<^verbatim>\<open>*string\<close>, \<^verbatim>\<open>Backup\<close> is a \<^verbatim>\<open>*SeedBackup\<close>.
\<close>

record SeedNetworks =
  snNodes :: "string option"
  snPods :: string
  snServices :: string

record SeedBackup =
  sbProvider :: string
  sbRegion :: "string option"
  sbSecretRef :: "string \<times> string"

record SeedSpec =
  ssNetworks :: SeedNetworks
  ssBackup :: "SeedBackup option"

text \<open>
  The values handed to \<^verbatim>\<open>apivalidation.ValidateImmutableField\<close> as \<^verbatim>\<open>interface{}\<close>.
\<close>

datatype SeedValue =
    StringValue string
  | StringPtrValue "string option"
  | BackupPtrValue "SeedBackup option"

text \<open>
  \<^verbatim>\<open>ValidateImmutableField\<close> of the Kubernetes library: when the old and the new value
  are not deeply equal, one \<^verbatim>\<open>field.Invalid\<close> error at the path, with the new value and
  the message \<^verbatim>\<open>FieldImmutableErrorMsg\<close>. Deep equality of strings and of pointers to
  them is equality of the values, \<^verbatim>\<open>nil\<close> being equal to \<^verbatim>\<open>nil\<close> only.
\<close>

definition FieldImmutableErrorMsg :: string where
  "FieldImmutableErrorMsg = ''field is immutable''"

definition ValidateImmutableField ::
  "SeedValue \<Rightarrow> SeedValue \<Rightarrow> string list \<Rightarrow> SeedValue FieldError list" where
  "ValidateImmutableField newVal oldVal fldPath =
     (if oldVal \<noteq> newVal
      then [\<lparr>feType = ErrorTypeInvalid, feField = fldPath, feBadValue = newVal,
              feDetail = FieldImmutableErrorMsg\<rparr>]
      else [])"

text \<open>\<^verbatim>\<open>ValidateSeedSpecUpdate\<close>; \<^verbatim>\<open>fldPath.Child(...)\<close> appends the path elements.\<close>

definition ValidateSeedSpecUpdate ::
  "SeedSpec \<Rightarrow> SeedSpec \<Rightarrow> string list \<Rightarrow> SeedValue FieldError list" where
  "ValidateSeedSpecUpdate newSeedSpec oldSeedSpec fldPath =
     (let allErrs = [];
          allErrs = allErrs @ ValidateImmutableField
            (StringValue (snPods (ssNetworks newSeedSpec)))
            (StringValue (snPods (ssNetworks oldSeedSpec)))
            (fldPath @ [''networks'', ''pods'']);
          allErrs = allErrs @ ValidateImmutableField
            (StringValue (snServices (ssNetworks newSeedSpec)))
            (StringValue (snServices (ssNetworks oldSeedSpec)))
            (fldPath @ [''networks'', ''services'']);
          allErrs = (if snNodes (ssNetworks oldSeedSpec) \<noteq> None
            then allErrs @ ValidateImmutableField
              (StringPtrValue (snNodes (ssNetworks newSeedSpec)))
              (StringPtrValue (snNodes (ssNetworks oldSeedSpec)))
              (fldPath @ [''networks'', ''nodes''])
            else allErrs)
      in (case ssBackup oldSeedSpec of
            None \<Rightarrow> allErrs
          | Some oldBackup \<Rightarrow>
              (case ssBackup newSeedSpec of
                 Some newBackup \<Rightarrow>
                   (let allErrs = allErrs @ ValidateImmutableField
                          (StringValue (sbProvider newBackup))
                          (StringValue (sbProvider oldBackup))
                          (fldPath @ [''backup'', ''provider''])
                    in allErrs @ ValidateImmutableField
                          (StringPtrValue (sbRegion newBackup))
                          (StringPtrValue (sbRegion oldBackup))
                          (fldPath @ [''backup'', ''region'']))
               | None \<Rightarrow>
                   allErrs @ ValidateImmutableField
                     (BackupPtrValue (ssBackup newSeedSpec))
                     (BackupPtrValue (ssBackup oldSeedSpec))
                     (fldPath @ [''backup'']))))"

text \<open>
  The last block of \<^verbatim>\<open>ValidateSeedSpecUpdate\<close> by itself: the errors on the backup
  section.
\<close>

definition backupErrs :: "SeedSpec \<Rightarrow> SeedSpec \<Rightarrow> string list \<Rightarrow> SeedValue FieldError list" where
  "backupErrs newSeedSpec oldSeedSpec fldPath =
     (case ssBackup oldSeedSpec of
        None \<Rightarrow> []
      | Some oldBackup \<Rightarrow>
          (case ssBackup newSeedSpec of
             Some newBackup \<Rightarrow>
               ValidateImmutableField (StringValue (sbProvider newBackup))
                 (StringValue (sbProvider oldBackup)) (fldPath @ [''backup'', ''provider''])
               @ ValidateImmutableField (StringPtrValue (sbRegion newBackup))
                 (StringPtrValue (sbRegion oldBackup)) (fldPath @ [''backup'', ''region''])
           | None \<Rightarrow>
               ValidateImmutableField (BackupPtrValue None)
                 (BackupPtrValue (Some oldBackup)) (fldPath @ [''backup''])))"

text \<open>An error list reports a path when it holds an error at that path.\<close>

definition reportsAt :: "'v FieldError list \<Rightarrow> string list \<Rightarrow> bool" where
  "reportsAt errs path = list_ex (\<lambda>e. feField e = path) errs"

section \<open>OpenIDConnectPreset admission plugin\<close>

text \<open>
  An \<^verbatim>\<open>OpenIDConnectPreset\<close>: its name, and of its specification the shoot selector
  (\<open>'sel\<close>, a \<^verbatim>\<open>*metav1.LabelSelector\<close>), the weight (an \<^verbatim>\<open>int32\<close>, only compared)
  and the configuration to apply (\<open>'cfg\<close>, the \<^verbatim>\<open>Server\<close> and \<^verbatim>\<open>Client\<close> sections).
\<close>

record ('sel, 'cfg) OpenIDConnectPresetSpec =
  psShootSelector :: 'sel
  psWeight :: int
  psConfig :: 'cfg

record ('sel, 'cfg) OpenIDConnectPreset =
  presetName :: string
  presetSpec :: "('sel, 'cfg) OpenIDConnectPresetSpec"

text \<open>
  The loop of \<^verbatim>\<open>filterOIDCs\<close>, with \<^verbatim>\<open>matchedPreset\<close> as an argument. The two functions
  of the Kubernetes library are parameters: \<open>asSelector\<close> is
  \<^verbatim>\<open>metav1.LabelSelectorAsSelector\<close> (\<open>Inl\<close> is its error) and \<open>matches\<close> is
  \<^verbatim>\<open>selector.Matches\<close> on the labels of the shoot. \<^verbatim>\<open>strings.Compare(a, b) > 0\<close> is
  \<open>b < a\<close> in the lexicographic order of the bytes.
\<close>

fun filterOIDCsLoop ::
  "('sel \<Rightarrow> string + 'selector) \<Rightarrow> ('selector \<Rightarrow> (string \<times> string) list \<Rightarrow> bool)
    \<Rightarrow> ('sel, 'cfg) OpenIDConnectPreset list \<Rightarrow> ('m, 's) Shoot
    \<Rightarrow> ('sel, 'cfg) OpenIDConnectPreset option
    \<Rightarrow> string + ('sel, 'cfg) OpenIDConnectPreset option" where
  "filterOIDCsLoop asSelector matches [] shoot matchedPreset = Inr matchedPreset"
| "filterOIDCsLoop asSelector matches (oidc # oidcs) shoot matchedPreset =
     (let spec = presetSpec oidc in
      case asSelector (psShootSelector spec) of
        Inl err \<Rightarrow> Inl (''label selector conversion failed: '' @ err)
      | Inr selector \<Rightarrow>
          if \<not> matches selector (omLabels (shootObjectMeta shoot))
            then filterOIDCsLoop asSelector matches oidcs shoot matchedPreset
          else (case matchedPreset of
                  None \<Rightarrow> filterOIDCsLoop asSelector matches oidcs shoot (Some oidc)
                | Some matched \<Rightarrow>
                    if psWeight spec \<ge> psWeight (presetSpec matched) then
                      (if psWeight spec > psWeight (presetSpec matched)
                         then filterOIDCsLoop asSelector matches oidcs shoot (Some oidc)
                       else if presetName matched < presetName oidc
                         then filterOIDCsLoop asSelector matches oidcs shoot (Some oidc)
                       else filterOIDCsLoop asSelector matches oidcs shoot matchedPreset)
                    else filterOIDCsLoop asSelector matches oidcs shoot matchedPreset))"

definition filterOIDCs ::
  "('sel \<Rightarrow> string + 'selector) \<Rightarrow> ('selector \<Rightarrow> (string \<times> string) list \<Rightarrow> bool)
    \<Rightarrow> ('sel, 'cfg) OpenIDConnectPreset list \<Rightarrow> ('m, 's) Shoot
    \<Rightarrow> string + ('sel, 'cfg) OpenIDConnectPresetSpec option" where
  "filterOIDCs asSelector matches oidcs shoot =
     (case filterOIDCsLoop asSelector matches oidcs shoot None of
        Inl err \<Rightarrow> Inl err
      | Inr None \<Rightarrow> Inr None
      | Inr (Some matchedPreset) \<Rightarrow> Inr (Some (presetSpec matchedPreset)))"

text \<open>
  \<^verbatim>\<open>OpenIDConnectPreset.Admit\<close>. \<open>ready\<close> is the result of \<^verbatim>\<open>WaitForReady()\<close>;
  \<open>oidcLister\<close> lists the presets of a namespace, or returns the message of its error;
  \<open>ApplyOIDCConfiguration\<close> is the function of the package \<^verbatim>\<open>applier\<close>, which changes
  the shoot in place. The result is the object after the call and the returned
  \<^verbatim>\<open>error\<close>.
\<close>

definition OpenIDConnectPreset_Admit ::
  "bool \<Rightarrow> (string \<Rightarrow> string + ('sel, 'cfg) OpenIDConnectPreset list)
    \<Rightarrow> ('sel \<Rightarrow> string + 'selector) \<Rightarrow> ('selector \<Rightarrow> (string \<times> string) list \<Rightarrow> bool)
    \<Rightarrow> (('m, 's) Shoot \<Rightarrow> ('sel, 'cfg) OpenIDConnectPresetSpec \<Rightarrow> ('m, 's) Shoot)
    \<Rightarrow> ('m, 's) Attributes \<Rightarrow> ('m, 's) Object \<times> StatusError option" where
  "OpenIDConnectPreset_Admit ready oidcLister asSelector matches ApplyOIDCConfiguration a =
     (if \<not> ready then (attrObject a, Some (Forbidden ''not yet ready to handle request''))
      else if length (attrSubresource a) \<noteq> 0 \<or> attrKind a \<noteq> core_Kind ''Shoot''
              \<or> attrOperation a \<noteq> Create
        then (attrObject a, None)
      else (case attrObject a of
        OtherObject \<Rightarrow>
          (attrObject a, Some (BadRequest ''could not convert resource into Shoot object''))
      | ShootObject shoot \<Rightarrow>
          if (case specKubeAPIServer (shootSpec shoot) of
                None \<Rightarrow> False
              | Some kubeAPIServer \<Rightarrow> kasOIDCConfig kubeAPIServer \<noteq> None)
            then (attrObject a, None)
          else (case oidcLister (shootNamespace shoot) of
            Inl err \<Rightarrow>
              (attrObject a, Some (InternalError
                 (''could not list existing openidconnectpresets: '' @ err)))
          | Inr oidcs \<Rightarrow>
              (case filterOIDCs asSelector matches oidcs shoot of
                 Inl err \<Rightarrow> (attrObject a, Some (InternalError err))
               | Inr None \<Rightarrow> (attrObject a, None)
               | Inr (Some preset) \<Rightarrow>
                   (ShootObject (ApplyOIDCConfiguration shoot preset), None)))))"

text \<open>
  The words of the specification: a preset matches a shoot when its selector converts
  and matches the labels of the shoot; a preset \<open>p\<close> is at least as good as a preset
  \<open>q\<close> when its weight is greater, or the weights are equal and its name is not
  lexicographically smaller.
\<close>

definition presetMatches ::
  "('sel \<Rightarrow> string + 'selector) \<Rightarrow> ('selector \<Rightarrow> (string \<times> string) list \<Rightarrow> bool)
    \<Rightarrow> ('m, 's) Shoot \<Rightarrow> ('sel, 'cfg) OpenIDConnectPreset \<Rightarrow> bool" where
  "presetMatches asSelector matches shoot p =
     (case asSelector (psShootSelector (presetSpec p)) of
        Inl err \<Rightarrow> False
      | Inr selector \<Rightarrow> matches selector (omLabels (shootObjectMeta shoot)))"

definition atLeastAsGood ::
  "('sel, 'cfg) OpenIDConnectPreset \<Rightarrow> ('sel, 'cfg) OpenIDConnectPreset \<Rightarrow> bool" where
  "atLeastAsGood p q \<longleftrightarrow>
     psWeight (presetSpec q) < psWeight (presetSpec p)
     \<or> (psWeight (presetSpec q) = psWeight (presetSpec p) \<and> presetName q \<le> presetName p)"

definition selectorsConvert ::
  "('sel \<Rightarrow> string + 'selector) \<Rightarrow> ('sel, 'cfg) OpenIDConnectPreset list \<Rightarrow> bool" where
  "selectorsConvert asSelector oidcs =
     list_all (\<lambda>p. \<not> isl (asSelector (psShootSelector (presetSpec p)))) oidcs"

section \<open>Botanist: stale container runtime resources\<close>

text \<open>
  An \<^verbatim>\<open>extensionsv1alpha1.ContainerRuntime\<close>: name, namespace and \<^verbatim>\<open>Spec.Type\<close>.
\<close>

record ContainerRuntime =
  crName :: string
  crNamespace :: string
  crType :: string

text \<open>
  A task function handed to the flow utility. The only task built here is the delete
  request for the object of a namespace and a name, whose not-found error is ignored.
  \<^verbatim>\<open>flow.Parallel(fns...)\<close> is the constructor \<open>Parallel\<close> on the list of its tasks.
\<close>

datatype TaskFn = DeleteIgnoreNotFound string string

datatype Flow = Parallel "TaskFn list"

text \<open>
  The first loop: \<^verbatim>\<open>wantedContainerRuntimes\<close>, the set of the types in
  \<^verbatim>\<open>b.Shoot.ContainerRuntimesMap\<close>. The map is the list of its entries, in the order
  of the iteration.
\<close>

fun wantedLoop :: "(string \<times> ContainerRuntime) list \<Rightarrow> string set \<Rightarrow> string set" where
  "wantedLoop [] wantedContainerRuntimes = wantedContainerRuntimes"
| "wantedLoop ((key, containerRuntime) # entries) wantedContainerRuntimes =
     wantedLoop entries (insert (crType containerRuntime) wantedContainerRuntimes)"

text \<open>The second loop, over the deployed resources, building \<^verbatim>\<open>fns\<close>.\<close>

fun staleLoop :: "ContainerRuntime list \<Rightarrow> string set \<Rightarrow> TaskFn list \<Rightarrow> TaskFn list" where
  "staleLoop [] wantedContainerRuntimes fns = fns"
| "staleLoop (deployedContainerRuntime # items) wantedContainerRuntimes fns =
     (if crType deployedContainerRuntime \<notin> wantedContainerRuntimes
      then staleLoop items wantedContainerRuntimes
             (fns @ [DeleteIgnoreNotFound (crNamespace deployedContainerRuntime)
                       (crName deployedContainerRuntime)])
      else staleLoop items wantedContainerRuntimes fns)"

text \<open>
  \<^verbatim>\<open>DeleteStaleContainerRuntimeResources\<close>. \<open>seedList\<close> is the \<^verbatim>\<open>List\<close> call of the
  client of the seed for a namespace: the deployed resources, or the message of the
  error. The result is the error of the list call, or the flow that is run.
\<close>

definition DeleteStaleContainerRuntimeResources ::
  "(string \<times> ContainerRuntime) list \<Rightarrow> string \<Rightarrow> (string \<Rightarrow> string + ContainerRuntime list)
    \<Rightarrow> string + Flow" where
  "DeleteStaleContainerRuntimeResources containerRuntimesMap seedNamespace seedList =
     (let wantedContainerRuntimes = wantedLoop containerRuntimesMap {} in
      case seedList seedNamespace of
        Inl err \<Rightarrow> Inl err
      | Inr deployedContainerRuntimes \<Rightarrow>
          Inr (Parallel (staleLoop deployedContainerRuntimes wantedContainerRuntimes [])))"

text \<open>The delete request for a deployed resource.\<close>

definition deleteOf :: "ContainerRuntime \<Rightarrow> TaskFn" where
  "deleteOf d = DeleteIgnoreNotFound (crNamespace d) (crName d)"

section \<open>ShootDNS admission plugin\<close>

text \<open>
  Modelled from the spec: the helpers \<^verbatim>\<open>helper.TaintsHave\<close>,
  \<^verbatim>\<open>helper.ShootUsesUnmanagedDNS\<close> and \<^verbatim>\<open>helper.FindPrimaryDNSProvider\<close> and the
  constants \<^verbatim>\<open>core.SeedTaintDisableDNS\<close> and \<^verbatim>\<open>core.DNSUnmanaged\<close> are declared
  outside the sources. The helpers follow their test tables (\<^verbatim>\<open>#TaintsHave\<close>,
  \<^verbatim>\<open>#ShootUsesUnmanagedDNS\<close>, \<^verbatim>\<open>#FindPrimaryDNSProvider\<close>): a taint with the key
  exists; the first provider of the shoot has the type \<^verbatim>\<open>unmanaged\<close>; the first provider
  whose \<^verbatim>\<open>Primary\<close> is set and true.
\<close>

definition core_SeedTaintDisableDNS :: string where
  "core_SeedTaintDisableDNS = ''seed.gardener.cloud/disable-dns''"

definition core_DNSUnmanaged :: string where
  "core_DNSUnmanaged = ''unmanaged''"

definition TaintsHave :: "string list \<Rightarrow> string \<Rightarrow> bool" where
  "TaintsHave taintKeys key = list_ex (\<lambda>k. k = key) taintKeys"

definition ShootUsesUnmanagedDNS :: "('m, 's) Shoot \<Rightarrow> bool" where
  "ShootUsesUnmanagedDNS shoot =
     (case specDNS (shootSpec shoot) of
        None \<Rightarrow> False
      | Some dns \<Rightarrow>
          (case dnsProviders dns of
             [] \<Rightarrow> False
           | provider # providers \<Rightarrow> dpType provider = Some core_DNSUnmanaged))"

definition FindPrimaryDNSProvider :: "DNSProvider list \<Rightarrow> DNSProvider option" where
  "FindPrimaryDNSProvider providers = find (\<lambda>provider. dpPrimary provider = Some True) providers"

text \<open>\<^verbatim>\<open>seedDisablesDNS\<close>, on the seed lister.\<close>

definition seedDisablesDNS :: "(string \<Rightarrow> string + Seed) \<Rightarrow> string \<Rightarrow> string + bool" where
  "seedDisablesDNS seedLister name =
     (case seedLister name of
        Inl err \<Rightarrow> Inl err
      | Inr seed \<Rightarrow> Inr (TaintsHave (seedTaintKeys seed) core_SeedTaintDisableDNS))"

text \<open>
  The domain \<^verbatim>\<open>fmt.Sprintf("%s.%s.%s", shoot.Name, project.Name, domain)\<close>.
\<close>

definition generatedDomain :: "string \<Rightarrow> string \<Rightarrow> string \<Rightarrow> string" where
  "generatedDomain sName pName domain = sName @ ''.'' @ pName @ ''.'' @ domain"

text \<open>
  The loop of \<^verbatim>\<open>assignDefaultDomainIfNeeded\<close> over the default domains. The shoot is
  changed in place: the result is the shoot after the call and the returned
  \<^verbatim>\<open>error\<close>. \<open>domainPtr\<close> is the pointer \<^verbatim>\<open>shootDomain\<close> read before the loop.
\<close>

fun assignLoop ::
  "string list \<Rightarrow> ('m, 's) Shoot \<Rightarrow> Project \<Rightarrow> string option
    \<Rightarrow> ('m, 's) Shoot \<times> StatusError option" where
  "assignLoop [] shoot project domainPtr = (shoot, None)"
| "assignLoop (domain # domains) shoot project domainPtr =
     (case domainPtr of
        Some sd \<Rightarrow>
          if suffix (''.'' @ domain) sd then
            (if sd \<noteq> generatedDomain (shootName shoot) (prName project) domain
             then (shoot, Some (BadRequest
               ''shoot uses a default domain but does not match expected scheme: <shoot-name>.<project-name>.<default-domain>''))
             else (shoot, None))
          else assignLoop domains shoot project domainPtr
      | None \<Rightarrow>
          (let dns = (case specDNS (shootSpec shoot) of
                        None \<Rightarrow> \<lparr>dnsDomain = None, dnsProviders = []\<rparr>
                      | Some dns \<Rightarrow> dns);
               generated = generatedDomain (shootName shoot) (prName project) domain
           in (shoot\<lparr>shootSpec := (shootSpec shoot)
                 \<lparr>specDNS := Some (dns\<lparr>dnsDomain := Some generated\<rparr>)\<rparr>\<rparr>, None)))"

definition assignDefaultDomainIfNeeded ::
  "('m, 's) Shoot \<Rightarrow> (string \<Rightarrow> string + Project) \<Rightarrow> string list
    \<Rightarrow> ('m, 's) Shoot \<times> StatusError option" where
  "assignDefaultDomainIfNeeded shoot getProject defaultDomains =
     (case getProject (shootNamespace shoot) of
        Inl err \<Rightarrow> (shoot, Some (InternalError err))
      | Inr project \<Rightarrow> assignLoop defaultDomains shoot project (shootDomain shoot))"

text \<open>
  \<^verbatim>\<open>managePrimaryDNSProvider\<close>; the caller has checked that the domain is set. The
  result is the \<^verbatim>\<open>DNS\<close> section after the call and the returned \<^verbatim>\<open>error\<close>.
\<close>

definition managePrimaryDNSProvider ::
  "DNS \<Rightarrow> string \<Rightarrow> string list \<Rightarrow> DNS \<times> StatusError option" where
  "managePrimaryDNSProvider dns domain defaultDomains =
     (let usesDefaultDomain = list_ex (\<lambda>d. suffix (''.'' @ d) domain) defaultDomains;
          primary = FindPrimaryDNSProvider (dnsProviders dns)
      in if usesDefaultDomain then
           (if primary \<noteq> None
            then (dns, Some (BadRequest
                   ''primary dns provider must not be set when default domain is used''))
            else (dns, None))
         else if primary = None \<and> length (dnsProviders dns) > 0
           then (dns\<lparr>dnsProviders :=
                   (hd (dnsProviders dns))\<lparr>dpPrimary := Some True\<rparr> # tl (dnsProviders dns)\<rparr>, None)
         else (dns, None))"

text \<open>
  \<^verbatim>\<open>DNS.Admit\<close>. \<open>ready\<close> is the result of \<^verbatim>\<open>WaitForReady()\<close>; \<open>defaultDomains\<close> is
  what \<^verbatim>\<open>getDefaultDomains\<close> returns from the secrets of the garden namespace: the
  default domains, in the order of the secrets, or its error. The result is the object
  after the call and the returned \<^verbatim>\<open>error\<close>.
\<close>

definition DNS_Admit ::
  "bool \<Rightarrow> (string \<Rightarrow> string + Seed) \<Rightarrow> (string \<Rightarrow> string + Project)
    \<Rightarrow> StatusError + string list
    \<Rightarrow> ('m, 's) Attributes \<Rightarrow> ('m, 's) Object \<times> StatusError option" where
  "DNS_Admit ready seedLister getProject defaultDomains a =
     (if \<not> ready then (attrObject a, Some (Forbidden ''not yet ready to handle request''))
      else if attrKind a \<noteq> core_Kind ''Shoot'' then (attrObject a, None)
      else (case attrObject a of
        OtherObject \<Rightarrow>
          (attrObject a, Some (BadRequest ''could not convert resource into Shoot object''))
      | ShootObject shoot \<Rightarrow>
      (case specSeedName (shootSpec shoot) of
        None \<Rightarrow> (attrObject a, None)
      | Some name \<Rightarrow>
      (case seedDisablesDNS seedLister name of
        Inl err \<Rightarrow>
          (attrObject a, Some (BadRequest (''could not get referenced seed: '' @ err)))
      | Inr dnsDisabled \<Rightarrow>
          if dnsDisabled then
            (if specDNS (shootSpec shoot) \<noteq> None
             then (attrObject a, Some (BadRequest
               (''shoot'' @ [CHR 0x27]
                 @ ''s .spec.dns section must be nil if seed with disabled DNS is chosen'')))
             else (attrObject a, None))
          else if ShootUsesUnmanagedDNS shoot then (attrObject a, None)
          else
      (case defaultDomains of
        Inl err \<Rightarrow> (attrObject a, Some err)
      | Inr domains \<Rightarrow>
      (case assignDefaultDomainIfNeeded shoot getProject domains of
        (shoot', Some err) \<Rightarrow> (ShootObject shoot', Some err)
      | (shoot', None) \<Rightarrow>
      (case specDNS (shootSpec shoot') of
        None \<Rightarrow> (ShootObject shoot', Some (BadRequest
          ''shoot domain field .spec.dns.domain must be set if provider != unmanaged and assigned to a seed which does not disable DNS''))
      | Some dns \<Rightarrow>
      (case dnsDomain dns of
        None \<Rightarrow> (ShootObject shoot', Some (BadRequest
          ''shoot domain field .spec.dns.domain must be set if provider != unmanaged and assigned to a seed which does not disable DNS''))
      | Some domain \<Rightarrow>
      (case managePrimaryDNSProvider dns domain domains of
        (dns', err) \<Rightarrow>
          (ShootObject (shoot'\<lparr>shootSpec := (shootSpec shoot')\<lparr>specDNS := Some dns'\<rparr>\<rparr>),
           err))))))))))"

text \<open>
  The words of the specification: a domain is a subdomain of a default domain when it
  ends with a dot and the default domain.
\<close>

definition subdomainOf :: "string \<Rightarrow> string \<Rightarrow> bool" where
  "subdomainOf domain defaultDomain \<longleftrightarrow> suffix (''.'' @ defaultDomain) domain"

section \<open>Project controller: reconcile\<close>

text \<open>
  The fields of \<^verbatim>\<open>gardencorev1beta1.Project\<close> that \<^verbatim>\<open>reconcile\<close> reads and writes. The
  phase is a string in the source; \<open>PhaseEmpty\<close> is the empty string
  (\<^verbatim>\<open>len(project.Status.Phase) == 0\<close>).
\<close>

datatype ProjectPhase =
    PhaseEmpty
  | ProjectPending
  | ProjectReady
  | ProjectFailed
  | ProjectTerminating

record ProjectResource =
  projName :: string
  projGeneration :: int
  projSpecNamespace :: "string option"
  projStatusPhase :: ProjectPhase
  projStatusObservedGeneration :: int


text \<open>
  What the garden cluster and the libraries answer to the calls of one run of
  \<^verbatim>\<open>reconcile\<close>, call by call, in the order of the source. An error is its message.
  \<^item> \<open>envGet\<close>: the \<^verbatim>\<open>Get\<close> of the project.
  \<^item> \<open>envPendingUpdate\<close>, \<open>envFailedUpdate\<close>, \<open>envReadyUpdate\<close>: the error, if any, of
    the call of \<^verbatim>\<open>updateProjectStatus\<close> that sets the phase to pending, to failed, and
    that marks the project ready.
  \<^item> \<open>envReconcileNamespace\<close>: the error of \<^verbatim>\<open>reconcileNamespaceForProject\<close>, or the
    name of the namespace.
  \<^item> \<open>envTryUpdateProject\<close>: \<^verbatim>\<open>kutils.TryUpdateProject\<close>; when it fails it returns its
    error and a pointer to a project, which may be \<^verbatim>\<open>nil\<close>.
  \<^item> \<open>envChartRenderer\<close>, \<open>envApplier\<close>, \<open>envApplyChart\<close>: the errors, if any, of
    \<^verbatim>\<open>chartrenderer.NewForConfig\<close>, \<^verbatim>\<open>kubernetes.NewApplierForConfig\<close> and
    \<^verbatim>\<open>ApplyChart\<close>.
  \<^item> \<open>envDeleteLegacy\<close>: the results of the \<^verbatim>\<open>Delete\<close> calls for the two legacy role
    bindings.
\<close>

datatype GetResult = GetOK | GetNotFound | GetError string

datatype DeleteResult = DeleteOK | DeleteNotFound | DeleteError string

datatype TryUpdateResult = TryUpdateOK | TryUpdateError string "ProjectResource option"

record Env =
  envGet :: GetResult
  envPendingUpdate :: "string option"
  envReconcileNamespace :: "string + string"
  envTryUpdateProject :: TryUpdateResult
  envChartRenderer :: "string option"
  envApplier :: "string option"
  envApplyChart :: "string option"
  envDeleteLegacy :: "DeleteResult \<times> DeleteResult"
  envFailedUpdate :: "string option"
  envReadyUpdate :: "string option"




text \<open>\<^verbatim>\<open>client.IgnoreNotFound\<close> on the result of a \<^verbatim>\<open>Delete\<close>.\<close>

fun ignoreNotFound :: "DeleteResult \<Rightarrow> string option" where
  "ignoreNotFound DeleteOK = None"
| "ignoreNotFound DeleteNotFound = None"
| "ignoreNotFound (DeleteError err) = Some err"



text \<open>
  The words of the specification: the steps of a reconciliation, in their order
  (reconciling the namespace, recording its name in \<^verbatim>\<open>.spec.namespace\<close> when that is
  not set, creating the chart applier, applying the chart, deleting the two legacy role
  bindings), and the error of the first step that fails.
\<close>

definition stepErrors :: "Env \<Rightarrow> ProjectResource \<Rightarrow> string option list" where
  "stepErrors env stored =
     [case envReconcileNamespace env of Inl err \<Rightarrow> Some err | Inr name \<Rightarrow> None,
      if projSpecNamespace stored = None
        then (case envTryUpdateProject env of
                TryUpdateOK \<Rightarrow> None
              | TryUpdateError err returned \<Rightarrow> Some err)
        else None,
      envChartRenderer env,
      envApplier env,
      envApplyChart env,
      ignoreNotFound (fst (envDeleteLegacy env)),
      ignoreNotFound (snd (envDeleteLegacy env))]"

definition firstFailure :: "Env \<Rightarrow> ProjectResource \<Rightarrow> string option" where
  "firstFailure env stored =
     (case filter (\<lambda>e. e \<noteq> None) (stepErrors env stored) of
        [] \<Rightarrow> None
      | e # es \<Rightarrow> e)"



section \<open>Health checker\<close>

text \<open>
  A condition of a shoot: its type, its status, the time of its last transition, a
  reason and a message. Times and durations are numbers of nanoseconds, as
  \<^verbatim>\<open>time.Duration\<close> is.
\<close>

datatype ConditionStatus =
    ConditionTrue
  | ConditionFalse
  | ConditionUnknown
  | ConditionProgressing

record Condition =
  condType :: string
  condStatus :: ConditionStatus
  condLastTransitionTime :: int
  condReason :: string
  condMessage :: string

text \<open>
  Modelled from the spec: the helper \<^verbatim>\<open>UpdatedCondition\<close> is declared outside the
  sources. It gives the condition the new status, reason and message; the time stamps it
  may refresh are not part of the specification and are left as they are.
\<close>

definition UpdatedCondition ::
  "Condition \<Rightarrow> ConditionStatus \<Rightarrow> string \<Rightarrow> string \<Rightarrow> Condition" where
  "UpdatedCondition condition status reason message =
     condition\<lparr>condStatus := status, condReason := reason, condMessage := message\<rparr>"

text \<open>
  Modelled from the spec: \<^verbatim>\<open>HealthChecker.FailedCondition\<close> is declared outside the
  sources; only its test table \<^verbatim>\<open>#FailedCondition\<close> is there. \<open>conditionThresholds\<close>
  is the map of the checker from condition types to threshold durations and \<open>now\<close> the
  result of \<^verbatim>\<open>Now()\<close>. A condition with the status true becomes progressing when its
  type has a threshold; a progressing condition stays progressing while \<open>now\<close> minus its
  last transition time is within the threshold; in every other case the condition
  becomes false.
\<close>

definition FailedCondition ::
  "(string \<Rightarrow> int option) \<Rightarrow> int \<Rightarrow> Condition \<Rightarrow> string \<Rightarrow> string \<Rightarrow> Condition" where
  "FailedCondition conditionThresholds now condition reason message =
     (case condStatus condition of
        ConditionTrue \<Rightarrow>
          (case conditionThresholds (condType condition) of
             None \<Rightarrow> UpdatedCondition condition ConditionFalse reason message
           | Some threshold \<Rightarrow> UpdatedCondition condition ConditionProgressing reason message)
      | ConditionProgressing \<Rightarrow>
          (case conditionThresholds (condType condition) of
             None \<Rightarrow> UpdatedCondition condition ConditionFalse reason message
           | Some threshold \<Rightarrow>
               if now - condLastTransitionTime condition \<le> threshold
               then UpdatedCondition condition ConditionProgressing reason message
               else UpdatedCondition condition ConditionFalse reason message)
      | _ \<Rightarrow> UpdatedCondition condition ConditionFalse reason message)"











chapter \<open>Properties\<close>

section \<open>Machine-type validation: what is accepted\<close>

lemma unavailableTypesLoop_iff:
  "unavailableTypesLoop ts machineType \<longleftrightarrow> machineType \<in> set ts"
  by (induction ts) auto

lemma regionZonesLoop_iff:
  "regionZonesLoop zs zoneName machineType \<longleftrightarrow>
     (\<exists>z \<in> set zs. azName z = zoneName \<and> machineType \<in> set (azUnavailableMachineTypes z))"
  by (induction zs) (auto simp: unavailableTypesLoop_iff)

lemma zoneNamesLoop_iff:
  "zoneNamesLoop zoneNames rzones machineType \<longleftrightarrow>
     (\<exists>zoneName \<in> set zoneNames. \<exists>z \<in> set rzones.
        azName z = zoneName \<and> machineType \<in> set (azUnavailableMachineTypes z))"
  by (induction zoneNames) (auto simp: regionZonesLoop_iff)

lemma regionsLoop_iff:
  "regionsLoop rs region zones machineType \<longleftrightarrow>
     (\<exists>r \<in> set rs. regName r = region \<and>
        (\<exists>zoneName \<in> set zones. \<exists>z \<in> set (regZones r).
           azName z = zoneName \<and> machineType \<in> set (azUnavailableMachineTypes z)))"
  by (induction rs) (auto simp: zoneNamesLoop_iff)

lemma constraintsLoop_accepts_iff:
  "fst (constraintsLoop ts unav machineType validValues) \<longleftrightarrow>
     \<not> unav \<and> (\<exists>t \<in> set ts. mtName t = machineType \<and> mtUsable t \<noteq> Some False)"
  by (induction ts unav machineType validValues rule: constraintsLoop.induct)
     (auto simp: Let_def)

text \<open>
  C5. \<^verbatim>\<open>validateMachineTypes\<close> accepts whenever the machine type equals the old worker's
  machine type. A changed machine type is accepted exactly when the cloud profile lists
  it in an entry that is not marked unusable, and no zone of the worker, in the region of
  the shoot, lists it among its unavailable machine types; so a type unavailable in at
  least one of the worker's zones is rejected.
\<close>

theorem validateMachineTypes_accepts_iff:
  "fst (validateMachineTypes constraints machineType oldMachineType regions region zones) \<longleftrightarrow>
     machineType = oldMachineType \<or>
     ((\<exists>t \<in> set constraints. mtName t = machineType \<and> mtUsable t \<noteq> Some False) \<and>
      \<not> (\<exists>r \<in> set regions. regName r = region \<and>
           (\<exists>zoneName \<in> set zones. \<exists>z \<in> set (regZones r).
              azName z = zoneName \<and> machineType \<in> set (azUnavailableMachineTypes z))))"
  unfolding validateMachineTypes_def
  by (simp add: constraintsLoop_accepts_iff regionsLoop_iff) blast

theorem validateMachineTypes_accepts_iff_witness:
  "fst (validateMachineTypes
         [\<lparr>mtName = ''m1'', mtUsable = None\<rparr>, \<lparr>mtName = ''m2'', mtUsable = Some False\<rparr>]
         ''m1'' ''m0''
         [\<lparr>regName = ''eu'', regZones =
            [\<lparr>azName = ''a'', azUnavailableMachineTypes = [''m3''],
              azUnavailableVolumeTypes = []\<rparr>]\<rparr>]
         ''eu'' [''a''])
   \<and> \<not> fst (validateMachineTypes
         [\<lparr>mtName = ''m1'', mtUsable = None\<rparr>, \<lparr>mtName = ''m3'', mtUsable = None\<rparr>]
         ''m3'' ''m0''
         [\<lparr>regName = ''eu'', regZones =
            [\<lparr>azName = ''a'', azUnavailableMachineTypes = [''m3''],
              azUnavailableVolumeTypes = []\<rparr>]\<rparr>]
         ''eu'' [''a''])"
  using validateMachineTypes_accepts_iff [of
         "[\<lparr>mtName = ''m1'', mtUsable = None\<rparr>, \<lparr>mtName = ''m2'', mtUsable = Some False\<rparr>]"
         "''m1''" "''m0''"
         "[\<lparr>regName = ''eu'', regZones =
            [\<lparr>azName = ''a'', azUnavailableMachineTypes = [''m3''],
              azUnavailableVolumeTypes = []\<rparr>]\<rparr>]"
         "''eu''" "[''a'']"]
    validateMachineTypes_accepts_iff [of
         "[\<lparr>mtName = ''m1'', mtUsable = None\<rparr>, \<lparr>mtName = ''m3'', mtUsable = None\<rparr>]"
         "''m3''" "''m0''"
         "[\<lparr>regName = ''eu'', regZones =
            [\<lparr>azName = ''a'', azUnavailableMachineTypes = [''m3''],
              azUnavailableVolumeTypes = []\<rparr>]\<rparr>]"
         "''eu''" "[''a'']"]
  by simp

section \<open>Uniqueness of the DNS domain\<close>






lemma uniquenessLoop_length:
  "length (uniquenessLoop shoots name d errs) \<le> Suc (length errs)"
  by (induction shoots name d errs rule: uniquenessLoop.induct)
     (auto split: option.splits)







section \<open>The limits on the names, on creation\<close>

lemma admitCreateSwitch_not_Create:
  "operation \<noteq> Create \<Longrightarrow> admitCreateSwitch operation project shoot = None"
  by (cases operation) (simp_all add: admitCreateSwitch_def)

lemma admitCreateSwitch_names:
  assumes "length (prName project) + length (shootName shoot) > 21 \<or> sublist ''--'' (prName project)"
  shows "\<exists>m. admitCreateSwitch Create project shoot = Some (Some (BadRequest m))"
  using assms by (auto simp: admitCreateSwitch_def lengthLimit_def)

lemma admitUpdateBlock_not_Update:
  "attrOperation a \<noteq> Update \<Longrightarrow> admitUpdateBlock a = None"
  by (simp add: admitUpdateBlock_def)

text \<open>
  C9. For a request that \<^verbatim>\<open>Admit\<close> handles (the plugin is ready, the kind is
  \<^verbatim>\<open>Shoot\<close>, no subresource): on \<^verbatim>\<open>CREATE\<close>, when the project name and the shoot
  name have more than 21 characters together, or the project name contains two
  consecutive hyphens, the request is rejected with a bad-request error. On \<^verbatim>\<open>UPDATE\<close>
  the result of \<^verbatim>\<open>Admit\<close> is the same for every project found, whatever its name:
  neither check is applied.
\<close>

theorem ValidateShoot_Admit_name_checks:
  assumes "vsReady v" and "attrKind a = core_Kind ''Shoot''" and "attrSubresource a = []"
    and "attrObject a = ShootObject shoot"
  shows "(attrOperation a = Create \<and> vsGetProject v (shootNamespace shoot) = Inr project
          \<and> (length (prName project) + length (shootName shoot) > 21
               \<or> sublist ''--'' (prName project))
          \<longrightarrow> isBadRequest (ValidateShoot_Admit v checks a))
    \<and> (attrOperation a = Update
          \<longrightarrow> ValidateShoot_Admit (v\<lparr>vsGetProject := \<lambda>namespace. Inr project\<rparr>) checks a
              = ValidateShoot_Admit (v\<lparr>vsGetProject := \<lambda>namespace. Inr project'\<rparr>) checks a)"
proof (intro conjI impI)
  assume h: "attrOperation a = Create \<and> vsGetProject v (shootNamespace shoot) = Inr project
          \<and> (length (prName project) + length (shootName shoot) > 21
               \<or> sublist ''--'' (prName project))"
  then obtain m where m: "admitCreateSwitch Create project shoot = Some (Some (BadRequest m))"
    using admitCreateSwitch_names by blast
  have u: "admitUpdateBlock a = None" using h by (simp add: admitUpdateBlock_not_Update)
  show "isBadRequest (ValidateShoot_Admit v checks a)"
    using assms h m u unfolding ValidateShoot_Admit_def
    by (auto split: sum.splits option.splits)
next
  assume "attrOperation a = Update"
  then have "admitCreateSwitch (attrOperation a) p shoot = None" for p
    by (simp add: admitCreateSwitch_not_Create)
  then show "ValidateShoot_Admit (v\<lparr>vsGetProject := \<lambda>namespace. Inr project\<rparr>) checks a
              = ValidateShoot_Admit (v\<lparr>vsGetProject := \<lambda>namespace. Inr project'\<rparr>) checks a"
    using assms unfolding ValidateShoot_Admit_def admitDNSAndFinish_def
    by (auto split: sum.splits option.splits)
qed

theorem ValidateShoot_Admit_name_checks_witness:
  "isBadRequest (ValidateShoot_Admit
     \<lparr>vsReady = True,
      vsCloudProfileLister = (\<lambda>n. Inr \<lparr>cpSpecType = ''aws'', cpMachineTypes = [], cpRegions = []\<rparr>),
      vsSeedLister = (\<lambda>n. Inl ''not found''),
      vsShootLister = Inr [],
      vsGetProject = (\<lambda>n. Inr \<lparr>prName = ''my-long-project'', prDeletionTimestamp = None\<rparr>)\<rparr>
     (\<lambda>a cloudProfile seed. Inr [])
     \<lparr>attrKind = core_Kind ''Shoot'', attrSubresource = [], attrOperation = Create,
      attrObject = ShootObject
        \<lparr>shootObjectMeta = \<lparr>omName = ''my-shoot'', omNamespace = ''garden-p'', omLabels = []\<rparr>,
         shootSpec = \<lparr>specCloudProfileName = ''cp'', specSeedName = None,
           specProviderType = ''aws'', specDNS = None, specKubeAPIServer = None\<rparr>\<rparr>,
      attrOldObject = OtherObject\<rparr>)
   \<and> ValidateShoot_Admit
     \<lparr>vsReady = True,
      vsCloudProfileLister = (\<lambda>n. Inr \<lparr>cpSpecType = ''aws'', cpMachineTypes = [], cpRegions = []\<rparr>),
      vsSeedLister = (\<lambda>n. Inl ''not found''),
      vsShootLister = Inr [],
      vsGetProject = (\<lambda>n. Inr \<lparr>prName = ''my-long-project'', prDeletionTimestamp = None\<rparr>)\<rparr>
     (\<lambda>a cloudProfile seed. Inr [])
     \<lparr>attrKind = core_Kind ''Shoot'', attrSubresource = [], attrOperation = Update,
      attrObject = ShootObject
        \<lparr>shootObjectMeta = \<lparr>omName = ''my-shoot'', omNamespace = ''garden-p'', omLabels = []\<rparr>,
         shootSpec = \<lparr>specCloudProfileName = ''cp'', specSeedName = None,
           specProviderType = ''aws'', specDNS = None, specKubeAPIServer = None\<rparr>\<rparr>,
      attrOldObject = ShootObject
        \<lparr>shootObjectMeta = \<lparr>omName = ''my-shoot'', omNamespace = ''garden-p'', omLabels = []\<rparr>,
         shootSpec = \<lparr>specCloudProfileName = ''cp0'', specSeedName = None,
           specProviderType = ''aws'', specDNS = None, specKubeAPIServer = None\<rparr>\<rparr>\<rparr>
     = None"
proof -
  let ?v = "\<lparr>vsReady = True,
      vsCloudProfileLister = (\<lambda>n. Inr \<lparr>cpSpecType = ''aws'', cpMachineTypes = [], cpRegions = []\<rparr>),
      vsSeedLister = (\<lambda>n. Inl ''not found''),
      vsShootLister = Inr [],
      vsGetProject = (\<lambda>n. Inr \<lparr>prName = ''my-long-project'', prDeletionTimestamp = None\<rparr>)\<rparr>
      :: (unit, unit) ValidateShoot"
  let ?shoot = "\<lparr>shootObjectMeta = \<lparr>omName = ''my-shoot'', omNamespace = ''garden-p'', omLabels = []\<rparr>,
         shootSpec = \<lparr>specCloudProfileName = ''cp'', specSeedName = None,
           specProviderType = ''aws'', specDNS = None, specKubeAPIServer = None\<rparr>\<rparr>"
  let ?old = "\<lparr>shootObjectMeta = \<lparr>omName = ''my-shoot'', omNamespace = ''garden-p'', omLabels = []\<rparr>,
         shootSpec = \<lparr>specCloudProfileName = ''cp0'', specSeedName = None,
           specProviderType = ''aws'', specDNS = None, specKubeAPIServer = None\<rparr>\<rparr>"
  let ?c = "\<lparr>attrKind = core_Kind ''Shoot'', attrSubresource = [], attrOperation = Create,
      attrObject = ShootObject ?shoot, attrOldObject = OtherObject\<rparr>"
  let ?u = "\<lparr>attrKind = core_Kind ''Shoot'', attrSubresource = [], attrOperation = Update,
      attrObject = ShootObject ?shoot, attrOldObject = ShootObject ?old\<rparr>"
  let ?p = "\<lparr>prName = ''my-long-project'', prDeletionTimestamp = None\<rparr>"
  let ?q = "\<lparr>prName = ''p'', prDeletionTimestamp = None\<rparr>"
  let ?checks = "\<lambda>a cloudProfile seed. Inr []"
  have 1: "isBadRequest (ValidateShoot_Admit ?v ?checks ?c)"
    using ValidateShoot_Admit_name_checks [of ?v ?c ?shoot ?p ?checks ?q] by simp
  have "ValidateShoot_Admit (?v\<lparr>vsGetProject := \<lambda>namespace. Inr ?p\<rparr>) ?checks ?u
      = ValidateShoot_Admit (?v\<lparr>vsGetProject := \<lambda>namespace. Inr ?q\<rparr>) ?checks ?u"
    using ValidateShoot_Admit_name_checks [of ?v ?u ?shoot ?p ?checks ?q] by simp
  moreover have "ValidateShoot_Admit (?v\<lparr>vsGetProject := \<lambda>namespace. Inr ?q\<rparr>) ?checks ?u = None"
    by (simp add: ValidateShoot_Admit_def admitUpdateBlock_def admitCreateSwitch_def
          admitDNSAndFinish_def validateDNSDomainUniqueness_def)
  ultimately have 2: "ValidateShoot_Admit ?v ?checks ?u = None" by simp
  from 1 2 show ?thesis by simp
qed

section \<open>Immutable fields of a Seed\<close>

lemma reportsAt_append: "reportsAt (xs @ ys) p \<longleftrightarrow> reportsAt xs p \<or> reportsAt ys p"
  by (auto simp: reportsAt_def list_ex_iff)

lemma reportsAt_Nil: "\<not> reportsAt [] p"
  by (simp add: reportsAt_def)

lemma reportsAt_ValidateImmutableField:
  "reportsAt (ValidateImmutableField newVal oldVal path) p \<longleftrightarrow> newVal \<noteq> oldVal \<and> path = p"
  by (auto simp: reportsAt_def ValidateImmutableField_def)

lemma ValidateImmutableField_Nil:
  "ValidateImmutableField newVal oldVal path = [] \<longleftrightarrow> newVal = oldVal"
  by (auto simp: ValidateImmutableField_def)

lemma ValidateSeedSpecUpdate_split:
  "ValidateSeedSpecUpdate newSeedSpec oldSeedSpec fldPath =
     ValidateImmutableField (StringValue (snPods (ssNetworks newSeedSpec)))
       (StringValue (snPods (ssNetworks oldSeedSpec))) (fldPath @ [''networks'', ''pods''])
     @ ValidateImmutableField (StringValue (snServices (ssNetworks newSeedSpec)))
       (StringValue (snServices (ssNetworks oldSeedSpec))) (fldPath @ [''networks'', ''services''])
     @ (if snNodes (ssNetworks oldSeedSpec) \<noteq> None
        then ValidateImmutableField (StringPtrValue (snNodes (ssNetworks newSeedSpec)))
          (StringPtrValue (snNodes (ssNetworks oldSeedSpec))) (fldPath @ [''networks'', ''nodes''])
        else [])
     @ backupErrs newSeedSpec oldSeedSpec fldPath"
  unfolding ValidateSeedSpecUpdate_def backupErrs_def Let_def
  by (simp split: option.split)

lemma reportsAt_backupErrs:
  "reportsAt (backupErrs newSeedSpec oldSeedSpec fldPath) p \<longleftrightarrow>
     (\<exists>oldBackup. ssBackup oldSeedSpec = Some oldBackup \<and>
        (case ssBackup newSeedSpec of
           Some newBackup \<Rightarrow>
             (sbProvider newBackup \<noteq> sbProvider oldBackup \<and> p = fldPath @ [''backup'', ''provider''])
             \<or> (sbRegion newBackup \<noteq> sbRegion oldBackup \<and> p = fldPath @ [''backup'', ''region''])
         | None \<Rightarrow> p = fldPath @ [''backup'']))"
  unfolding backupErrs_def
  by (cases "ssBackup oldSeedSpec"; cases "ssBackup newSeedSpec")
     (auto simp: reportsAt_append reportsAt_Nil reportsAt_ValidateImmutableField)

lemma backupErrs_Nil:
  "backupErrs newSeedSpec oldSeedSpec fldPath = [] \<longleftrightarrow>
     ssBackup oldSeedSpec = None
     \<or> (\<exists>newBackup oldBackup. ssBackup newSeedSpec = Some newBackup
           \<and> ssBackup oldSeedSpec = Some oldBackup
           \<and> sbProvider newBackup = sbProvider oldBackup
           \<and> sbRegion newBackup = sbRegion oldBackup)"
  unfolding backupErrs_def
  by (cases "ssBackup oldSeedSpec"; cases "ssBackup newSeedSpec")
     (auto simp: ValidateImmutableField_Nil)

lemmas reportsAt_update =
  ValidateSeedSpecUpdate_split reportsAt_append reportsAt_Nil
  reportsAt_ValidateImmutableField reportsAt_backupErrs

lemma update_pods:
  "reportsAt (ValidateSeedSpecUpdate n o' fldPath) (fldPath @ [''networks'', ''pods'']) \<longleftrightarrow>
     snPods (ssNetworks n) \<noteq> snPods (ssNetworks o')"
  by (auto simp add: reportsAt_update split: option.split)

lemma update_services:
  "reportsAt (ValidateSeedSpecUpdate n o' fldPath) (fldPath @ [''networks'', ''services'']) \<longleftrightarrow>
     snServices (ssNetworks n) \<noteq> snServices (ssNetworks o')"
  by (auto simp add: reportsAt_update split: option.split)

lemma update_nodes:
  "reportsAt (ValidateSeedSpecUpdate n o' fldPath) (fldPath @ [''networks'', ''nodes'']) \<longleftrightarrow>
     snNodes (ssNetworks o') \<noteq> None \<and> snNodes (ssNetworks n) \<noteq> snNodes (ssNetworks o')"
  by (auto simp add: reportsAt_update split: option.split)

lemma update_provider:
  "reportsAt (ValidateSeedSpecUpdate n o' fldPath) (fldPath @ [''backup'', ''provider'']) \<longleftrightarrow>
     (\<exists>newBackup oldBackup. ssBackup n = Some newBackup \<and> ssBackup o' = Some oldBackup
        \<and> sbProvider newBackup \<noteq> sbProvider oldBackup)"
  by (cases "ssBackup n") (auto simp add: reportsAt_update)

lemma update_region:
  "reportsAt (ValidateSeedSpecUpdate n o' fldPath) (fldPath @ [''backup'', ''region'']) \<longleftrightarrow>
     (\<exists>newBackup oldBackup. ssBackup n = Some newBackup \<and> ssBackup o' = Some oldBackup
        \<and> sbRegion newBackup \<noteq> sbRegion oldBackup)"
  by (cases "ssBackup n") (auto simp add: reportsAt_update)

lemma update_backup:
  "reportsAt (ValidateSeedSpecUpdate n o' fldPath) (fldPath @ [''backup'']) \<longleftrightarrow>
     ssBackup o' \<noteq> None \<and> ssBackup n = None"
  by (cases "ssBackup n") (auto simp add: reportsAt_update)

lemma update_Nil:
  "ValidateSeedSpecUpdate n o' fldPath = [] \<longleftrightarrow>
      snPods (ssNetworks n) = snPods (ssNetworks o')
    \<and> snServices (ssNetworks n) = snServices (ssNetworks o')
    \<and> (snNodes (ssNetworks o') = None \<or> snNodes (ssNetworks n) = snNodes (ssNetworks o'))
    \<and> (ssBackup o' = None
         \<or> (\<exists>newBackup oldBackup. ssBackup n = Some newBackup \<and> ssBackup o' = Some oldBackup
               \<and> sbProvider newBackup = sbProvider oldBackup
               \<and> sbRegion newBackup = sbRegion oldBackup))"
  by (auto simp add: ValidateSeedSpecUpdate_split ValidateImmutableField_Nil backupErrs_Nil)

text \<open>
  C10. \<^verbatim>\<open>ValidateSeedSpecUpdate\<close> reports an error at \<^verbatim>\<open>networks.pods\<close> exactly when
  the pods CIDR differs from the old one, at \<^verbatim>\<open>networks.services\<close> exactly when the
  services CIDR differs, and at \<^verbatim>\<open>networks.nodes\<close> exactly when the nodes CIDR was set
  in the old specification and differs. On the backup section: the provider and the
  region are reported exactly when both specifications have a backup and the field
  differs; the section itself is reported exactly when it is removed; so a backup added
  to a seed without one is not reported. There is no error at all exactly when all of
  these fields are kept.
\<close>

theorem ValidateSeedSpecUpdate_immutable:
  fixes newSeedSpec oldSeedSpec :: SeedSpec and fldPath :: "string list"
  defines "errs \<equiv> ValidateSeedSpecUpdate newSeedSpec oldSeedSpec fldPath"
  shows "(reportsAt errs (fldPath @ [''networks'', ''pods'']) \<longleftrightarrow>
            snPods (ssNetworks newSeedSpec) \<noteq> snPods (ssNetworks oldSeedSpec))
    \<and> (reportsAt errs (fldPath @ [''networks'', ''services'']) \<longleftrightarrow>
            snServices (ssNetworks newSeedSpec) \<noteq> snServices (ssNetworks oldSeedSpec))
    \<and> (reportsAt errs (fldPath @ [''networks'', ''nodes'']) \<longleftrightarrow>
            snNodes (ssNetworks oldSeedSpec) \<noteq> None
            \<and> snNodes (ssNetworks newSeedSpec) \<noteq> snNodes (ssNetworks oldSeedSpec))
    \<and> (reportsAt errs (fldPath @ [''backup'', ''provider'']) \<longleftrightarrow>
            (\<exists>newBackup oldBackup. ssBackup newSeedSpec = Some newBackup
               \<and> ssBackup oldSeedSpec = Some oldBackup
               \<and> sbProvider newBackup \<noteq> sbProvider oldBackup))
    \<and> (reportsAt errs (fldPath @ [''backup'', ''region'']) \<longleftrightarrow>
            (\<exists>newBackup oldBackup. ssBackup newSeedSpec = Some newBackup
               \<and> ssBackup oldSeedSpec = Some oldBackup
               \<and> sbRegion newBackup \<noteq> sbRegion oldBackup))
    \<and> (reportsAt errs (fldPath @ [''backup'']) \<longleftrightarrow>
            ssBackup oldSeedSpec \<noteq> None \<and> ssBackup newSeedSpec = None)
    \<and> (errs = [] \<longleftrightarrow>
            snPods (ssNetworks newSeedSpec) = snPods (ssNetworks oldSeedSpec)
          \<and> snServices (ssNetworks newSeedSpec) = snServices (ssNetworks oldSeedSpec)
          \<and> (snNodes (ssNetworks oldSeedSpec) = None
               \<or> snNodes (ssNetworks newSeedSpec) = snNodes (ssNetworks oldSeedSpec))
          \<and> (ssBackup oldSeedSpec = None
               \<or> (\<exists>newBackup oldBackup. ssBackup newSeedSpec = Some newBackup
                     \<and> ssBackup oldSeedSpec = Some oldBackup
                     \<and> sbProvider newBackup = sbProvider oldBackup
                     \<and> sbRegion newBackup = sbRegion oldBackup)))"
  unfolding errs_def
  by (intro conjI update_pods update_services update_nodes update_provider update_region
        update_backup update_Nil)

theorem ValidateSeedSpecUpdate_immutable_witness:
  "reportsAt
     (ValidateSeedSpecUpdate
        \<lparr>ssNetworks = \<lparr>snNodes = Some ''10.250.0.0/16'', snPods = ''100.64.0.0/11'',
           snServices = ''100.64.0.0/13''\<rparr>,
         ssBackup = Some \<lparr>sbProvider = ''aws'', sbRegion = None, sbSecretRef = (''backup'', ''garden'')\<rparr>\<rparr>
        \<lparr>ssNetworks = \<lparr>snNodes = Some ''10.250.0.0/16'', snPods = ''100.96.0.0/11'',
           snServices = ''100.64.0.0/13''\<rparr>,
         ssBackup = None\<rparr>
        [''spec''])
     [''spec'', ''networks'', ''pods'']
   \<and> \<not> reportsAt
     (ValidateSeedSpecUpdate
        \<lparr>ssNetworks = \<lparr>snNodes = Some ''10.250.0.0/16'', snPods = ''100.64.0.0/11'',
           snServices = ''100.64.0.0/13''\<rparr>,
         ssBackup = Some \<lparr>sbProvider = ''aws'', sbRegion = None, sbSecretRef = (''backup'', ''garden'')\<rparr>\<rparr>
        \<lparr>ssNetworks = \<lparr>snNodes = Some ''10.250.0.0/16'', snPods = ''100.96.0.0/11'',
           snServices = ''100.64.0.0/13''\<rparr>,
         ssBackup = None\<rparr>
        [''spec''])
     [''spec'', ''backup'']"
  using ValidateSeedSpecUpdate_immutable [of
        "\<lparr>ssNetworks = \<lparr>snNodes = Some ''10.250.0.0/16'', snPods = ''100.64.0.0/11'',
           snServices = ''100.64.0.0/13''\<rparr>,
         ssBackup = Some \<lparr>sbProvider = ''aws'', sbRegion = None, sbSecretRef = (''backup'', ''garden'')\<rparr>\<rparr>"
        "\<lparr>ssNetworks = \<lparr>snNodes = Some ''10.250.0.0/16'', snPods = ''100.96.0.0/11'',
           snServices = ''100.64.0.0/13''\<rparr>,
         ssBackup = None\<rparr>"
        "[''spec'']"]
  by simp

section \<open>Selection of the OpenIDConnectPreset\<close>

lemma atLeastAsGood_refl: "atLeastAsGood p p"
  by (simp add: atLeastAsGood_def)

lemma atLeastAsGood_trans: "atLeastAsGood p q \<Longrightarrow> atLeastAsGood q r \<Longrightarrow> atLeastAsGood p r"
  by (auto simp: atLeastAsGood_def)

lemma filterOIDCsLoop_result:
  assumes "selectorsConvert asSelector oidcs"
  shows "\<exists>r. filterOIDCsLoop asSelector matches oidcs shoot m = Inr r
      \<and> (r = None \<longleftrightarrow> m = None \<and> (\<forall>q \<in> set oidcs. \<not> presetMatches asSelector matches shoot q))
      \<and> (\<forall>p. r = Some p \<longrightarrow>
            (m = Some p \<or> (p \<in> set oidcs \<and> presetMatches asSelector matches shoot p))
            \<and> (\<forall>q. m = Some q \<or> (q \<in> set oidcs \<and> presetMatches asSelector matches shoot q)
                  \<longrightarrow> atLeastAsGood p q))"
  using assms
proof (induction oidcs arbitrary: m)
  case Nil
  then show ?case by (auto simp: atLeastAsGood_refl)
next
  case (Cons oidc oidcs)
  from Cons.prems obtain selector where sel: "asSelector (psShootSelector (presetSpec oidc)) = Inr selector"
    and rest: "selectorsConvert asSelector oidcs"
    by (cases "asSelector (psShootSelector (presetSpec oidc))") (auto simp: selectorsConvert_def)
  show ?case
  proof (cases "matches selector (omLabels (shootObjectMeta shoot))")
    case False
    then have nm: "\<not> presetMatches asSelector matches shoot oidc"
      by (simp add: presetMatches_def sel)
    have step: "filterOIDCsLoop asSelector matches (oidc # oidcs) shoot m
        = filterOIDCsLoop asSelector matches oidcs shoot m"
      using False sel by simp
    from Cons.IH [OF rest, of m] nm show ?thesis unfolding step by auto
  next
    case True
    then have pm: "presetMatches asSelector matches shoot oidc"
      by (simp add: presetMatches_def sel)
    define m' where "m' = (case m of None \<Rightarrow> oidc
        | Some matched \<Rightarrow>
            if psWeight (presetSpec oidc) > psWeight (presetSpec matched) then oidc
            else if psWeight (presetSpec oidc) = psWeight (presetSpec matched)
                    \<and> presetName matched < presetName oidc then oidc
            else matched)"
    have step: "filterOIDCsLoop asSelector matches (oidc # oidcs) shoot m
        = filterOIDCsLoop asSelector matches oidcs shoot (Some m')"
      using True sel by (auto simp: m'_def Let_def split: option.splits)
    have m'1: "m' = oidc \<or> m = Some m'"
      by (auto simp: m'_def split: option.splits)
    have m'2: "atLeastAsGood m' oidc"
      by (auto simp: m'_def atLeastAsGood_def split: option.splits)
    have m'3: "atLeastAsGood m' q" if "m = Some q" for q
      using that by (auto simp: m'_def atLeastAsGood_def)
    from Cons.IH [OF rest, of "Some m'"] obtain r where
      r: "filterOIDCsLoop asSelector matches oidcs shoot (Some m') = Inr r"
      and rn: "r \<noteq> None"
      and rp: "\<And>p. r = Some p \<Longrightarrow>
            (m' = p \<or> (p \<in> set oidcs \<and> presetMatches asSelector matches shoot p))
            \<and> (\<forall>q. m' = q \<or> (q \<in> set oidcs \<and> presetMatches asSelector matches shoot q)
                  \<longrightarrow> atLeastAsGood p q)"
      by auto
    from rn obtain p where p: "r = Some p" by auto
    have a: "m = Some p \<or> (p \<in> set (oidc # oidcs) \<and> presetMatches asSelector matches shoot p)"
      using rp [OF p] m'1 pm by auto
    have b: "atLeastAsGood p q"
      if "m = Some q \<or> (q \<in> set (oidc # oidcs) \<and> presetMatches asSelector matches shoot q)" for q
    proof -
      have pm': "atLeastAsGood p m'" using rp [OF p] by blast
      from that consider "m = Some q" | "q = oidc" | "q \<in> set oidcs" "presetMatches asSelector matches shoot q"
        by auto
      then show ?thesis
      proof cases
        case 1 then show ?thesis using atLeastAsGood_trans [OF pm' m'3] by blast
      next
        case 2 then show ?thesis using atLeastAsGood_trans [OF pm' m'2] by blast
      next
        case 3 then show ?thesis using rp [OF p] by blast
      qed
    qed
    show ?thesis unfolding step using r p a b pm by auto
  qed
qed


lemma filterOIDCs_result:
  assumes "selectorsConvert asSelector oidcs"
  shows "(if \<forall>q \<in> set oidcs. \<not> presetMatches asSelector matches shoot q
          then filterOIDCs asSelector matches oidcs shoot = Inr None
          else \<exists>p \<in> set oidcs. presetMatches asSelector matches shoot p
                 \<and> (\<forall>q \<in> set oidcs. presetMatches asSelector matches shoot q \<longrightarrow> atLeastAsGood p q)
                 \<and> filterOIDCs asSelector matches oidcs shoot = Inr (Some (presetSpec p)))"
proof -
  from filterOIDCsLoop_result [OF assms, of matches shoot None] obtain r where
    r: "filterOIDCsLoop asSelector matches oidcs shoot None = Inr r"
    and rn: "r = None \<longleftrightarrow> (\<forall>q \<in> set oidcs. \<not> presetMatches asSelector matches shoot q)"
    and rp: "\<And>p. r = Some p \<Longrightarrow> p \<in> set oidcs \<and> presetMatches asSelector matches shoot p
              \<and> (\<forall>q. q \<in> set oidcs \<and> presetMatches asSelector matches shoot q \<longrightarrow> atLeastAsGood p q)"
    by auto
  show ?thesis
  proof (cases r)
    case None
    with r rn show ?thesis by (simp add: filterOIDCs_def)
  next
    case (Some p)
    with rn have ex: "\<not> (\<forall>q \<in> set oidcs. \<not> presetMatches asSelector matches shoot q)" by simp
    have "filterOIDCs asSelector matches oidcs shoot = Inr (Some (presetSpec p))"
      using r Some by (simp add: filterOIDCs_def)
    with rp [OF Some] ex show ?thesis by auto
  qed
qed

text \<open>
  C6. When the plugin is ready: a request that is not a \<^verbatim>\<open>CREATE\<close>, or that is for a
  subresource, is ignored (the object is unchanged and no error is returned). On
  \<^verbatim>\<open>CREATE\<close> of a shoot without subresource, whose specification has no
  \<^verbatim>\<open>OIDCConfig\<close>, when the presets of the namespace of the shoot are listed and their
  selectors convert: if no preset matches the labels of the shoot, the shoot is left
  unchanged; otherwise the configuration that is applied is the one of a matching
  preset that is at least as good as every matching preset: no matching preset has a
  greater weight, and none of the same weight has a lexicographically greater name.
\<close>

theorem OpenIDConnectPreset_Admit_selects:
  assumes "ready"
  shows "(attrOperation a \<noteq> Create \<or> attrSubresource a \<noteq> []
          \<longrightarrow> OpenIDConnectPreset_Admit ready oidcLister asSelector matches ApplyOIDCConfiguration a
                = (attrObject a, None))
    \<and> (attrOperation a = Create \<and> attrSubresource a = [] \<and> attrKind a = core_Kind ''Shoot''
        \<and> attrObject a = ShootObject shoot
        \<and> (\<forall>kubeAPIServer. specKubeAPIServer (shootSpec shoot) = Some kubeAPIServer
              \<longrightarrow> kasOIDCConfig kubeAPIServer = None)
        \<and> oidcLister (shootNamespace shoot) = Inr oidcs
        \<and> selectorsConvert asSelector oidcs
        \<longrightarrow> (if \<forall>q \<in> set oidcs. \<not> presetMatches asSelector matches shoot q
             then OpenIDConnectPreset_Admit ready oidcLister asSelector matches
                    ApplyOIDCConfiguration a = (ShootObject shoot, None)
             else \<exists>p \<in> set oidcs. presetMatches asSelector matches shoot p
                    \<and> (\<forall>q \<in> set oidcs. presetMatches asSelector matches shoot q
                          \<longrightarrow> atLeastAsGood p q)
                    \<and> OpenIDConnectPreset_Admit ready oidcLister asSelector matches
                          ApplyOIDCConfiguration a
                        = (ShootObject (ApplyOIDCConfiguration shoot (presetSpec p)), None)))"
proof (intro conjI impI)
  assume "attrOperation a \<noteq> Create \<or> attrSubresource a \<noteq> []"
  with assms show "OpenIDConnectPreset_Admit ready oidcLister asSelector matches
      ApplyOIDCConfiguration a = (attrObject a, None)"
    by (auto simp: OpenIDConnectPreset_Admit_def)
next
  assume h: "attrOperation a = Create \<and> attrSubresource a = [] \<and> attrKind a = core_Kind ''Shoot''
        \<and> attrObject a = ShootObject shoot
        \<and> (\<forall>kubeAPIServer. specKubeAPIServer (shootSpec shoot) = Some kubeAPIServer
              \<longrightarrow> kasOIDCConfig kubeAPIServer = None)
        \<and> oidcLister (shootNamespace shoot) = Inr oidcs
        \<and> selectorsConvert asSelector oidcs"
  then have no: "\<not> (case specKubeAPIServer (shootSpec shoot) of
                None \<Rightarrow> False
              | Some kubeAPIServer \<Rightarrow> kasOIDCConfig kubeAPIServer \<noteq> None)"
    by (auto split: option.splits)
  have admit: "OpenIDConnectPreset_Admit ready oidcLister asSelector matches ApplyOIDCConfiguration a
      = (case filterOIDCs asSelector matches oidcs shoot of
                 Inl err \<Rightarrow> (attrObject a, Some (InternalError err))
               | Inr None \<Rightarrow> (attrObject a, None)
               | Inr (Some preset) \<Rightarrow>
                   (ShootObject (ApplyOIDCConfiguration shoot preset), None))"
    using assms h no by (simp add: OpenIDConnectPreset_Admit_def)
  from h have conv: "selectorsConvert asSelector oidcs" by simp
  show "if \<forall>q \<in> set oidcs. \<not> presetMatches asSelector matches shoot q
             then OpenIDConnectPreset_Admit ready oidcLister asSelector matches
                    ApplyOIDCConfiguration a = (ShootObject shoot, None)
             else \<exists>p \<in> set oidcs. presetMatches asSelector matches shoot p
                    \<and> (\<forall>q \<in> set oidcs. presetMatches asSelector matches shoot q
                          \<longrightarrow> atLeastAsGood p q)
                    \<and> OpenIDConnectPreset_Admit ready oidcLister asSelector matches
                          ApplyOIDCConfiguration a
                        = (ShootObject (ApplyOIDCConfiguration shoot (presetSpec p)), None)"
  proof (cases "\<forall>q \<in> set oidcs. \<not> presetMatches asSelector matches shoot q")
    case True
    with filterOIDCs_result [OF conv, of matches shoot]
    have "filterOIDCs asSelector matches oidcs shoot = Inr None" by simp
    with True admit h show ?thesis by simp
  next
    case False
    with filterOIDCs_result [OF conv, of matches shoot]
    obtain p where "p \<in> set oidcs" "presetMatches asSelector matches shoot p"
      "\<forall>q \<in> set oidcs. presetMatches asSelector matches shoot q \<longrightarrow> atLeastAsGood p q"
      "filterOIDCs asSelector matches oidcs shoot = Inr (Some (presetSpec p))"
      by auto
    with False admit show ?thesis by auto
  qed
qed

theorem OpenIDConnectPreset_Admit_selects_witness:
  "OpenIDConnectPreset_Admit True
     (\<lambda>namespace. Inr
        [\<lparr>presetName = ''a'', presetSpec = \<lparr>psShootSelector = [(''env'', ''dev'')], psWeight = 1, psConfig = ''client-a''\<rparr>\<rparr>,
         \<lparr>presetName = ''b'', presetSpec = \<lparr>psShootSelector = [], psWeight = 2, psConfig = ''client-b''\<rparr>\<rparr>,
         \<lparr>presetName = ''c'', presetSpec = \<lparr>psShootSelector = [(''env'', ''dev'')], psWeight = 2, psConfig = ''client-c''\<rparr>\<rparr>,
         \<lparr>presetName = ''d'', presetSpec = \<lparr>psShootSelector = [(''env'', ''prod'')], psWeight = 9, psConfig = ''client-d''\<rparr>\<rparr>])
     Inr
     (\<lambda>selector labels. list_all (\<lambda>kv. kv \<in> set labels) selector)
     (\<lambda>shoot spec. shoot\<lparr>shootSpec := (shootSpec shoot)\<lparr>specKubeAPIServer :=
        Some \<lparr>kasOIDCConfig = Some \<lparr>oidcClientID = Some (psConfig spec), oidcIssuerURL = None\<rparr>\<rparr>\<rparr>\<rparr>)
     \<lparr>attrKind = core_Kind ''Shoot'', attrSubresource = [], attrOperation = Create,
      attrObject = ShootObject
        \<lparr>shootObjectMeta = \<lparr>omName = ''s'', omNamespace = ''garden-p'', omLabels = [(''env'', ''dev'')]\<rparr>,
         shootSpec = \<lparr>specCloudProfileName = ''cp'', specSeedName = None,
           specProviderType = ''aws'', specDNS = None, specKubeAPIServer = None\<rparr>\<rparr>,
      attrOldObject = OtherObject\<rparr>
   = (ShootObject
        \<lparr>shootObjectMeta = \<lparr>omName = ''s'', omNamespace = ''garden-p'', omLabels = [(''env'', ''dev'')]\<rparr>,
         shootSpec = \<lparr>specCloudProfileName = ''cp'', specSeedName = None,
           specProviderType = ''aws'', specDNS = None,
           specKubeAPIServer = Some \<lparr>kasOIDCConfig =
             Some \<lparr>oidcClientID = Some ''client-c'', oidcIssuerURL = None\<rparr>\<rparr>\<rparr>\<rparr>, None)"
proof -
  let ?oidcs = "[\<lparr>presetName = ''a'', presetSpec = \<lparr>psShootSelector = [(''env'', ''dev'')], psWeight = 1, psConfig = ''client-a''\<rparr>\<rparr>,
         \<lparr>presetName = ''b'', presetSpec = \<lparr>psShootSelector = [], psWeight = 2, psConfig = ''client-b''\<rparr>\<rparr>,
         \<lparr>presetName = ''c'', presetSpec = \<lparr>psShootSelector = [(''env'', ''dev'')], psWeight = 2, psConfig = ''client-c''\<rparr>\<rparr>,
         \<lparr>presetName = ''d'', presetSpec = \<lparr>psShootSelector = [(''env'', ''prod'')], psWeight = 9, psConfig = ''client-d''\<rparr>\<rparr>]"
  let ?asSelector = "Inr :: (string \<times> string) list \<Rightarrow> string + (string \<times> string) list"
  let ?matches = "\<lambda>selector labels. list_all (\<lambda>kv. kv \<in> set labels) selector"
  let ?apply = "\<lambda>shoot spec. shoot\<lparr>shootSpec := (shootSpec shoot)\<lparr>specKubeAPIServer :=
        Some \<lparr>kasOIDCConfig = Some \<lparr>oidcClientID = Some (psConfig spec), oidcIssuerURL = None\<rparr>\<rparr>\<rparr>\<rparr>"
  let ?shoot = "\<lparr>shootObjectMeta = \<lparr>omName = ''s'', omNamespace = ''garden-p'', omLabels = [(''env'', ''dev'')]\<rparr>,
         shootSpec = \<lparr>specCloudProfileName = ''cp'', specSeedName = None,
           specProviderType = ''aws'', specDNS = None, specKubeAPIServer = None\<rparr>\<rparr>"
  let ?a = "\<lparr>attrKind = core_Kind ''Shoot'', attrSubresource = [], attrOperation = Create,
      attrObject = ShootObject ?shoot, attrOldObject = OtherObject\<rparr>"
  have conv: "selectorsConvert ?asSelector ?oidcs" by (simp add: selectorsConvert_def)
  from OpenIDConnectPreset_Admit_selects [of True ?a "\<lambda>namespace. Inr ?oidcs" ?asSelector
      ?matches ?apply ?shoot ?oidcs] conv
  show ?thesis
    by (simp add: presetMatches_def atLeastAsGood_def)
qed

section \<open>Deletion of the stale container runtime resources\<close>

lemma wantedLoop_eq: "wantedLoop entries w = w \<union> crType ` snd ` set entries"
  by (induction entries w rule: wantedLoop.induct) auto

lemma staleLoop_eq:
  "staleLoop items w fns = fns @ map deleteOf (filter (\<lambda>d. crType d \<notin> w) items)"
  by (induction items w fns rule: staleLoop.induct) (auto simp: deleteOf_def)

lemma deleteOf_inj_on_distinct:
  assumes "distinct (map (\<lambda>d. (crNamespace d, crName d)) items)"
    and "d \<in> set items" and "d' \<in> set items" and "deleteOf d = deleteOf d'"
  shows "d = d'"
proof -
  from assms(4) have "(crNamespace d, crName d) = (crNamespace d', crName d')"
    by (simp add: deleteOf_def)
  with assms(1-3) show ?thesis
    by (meson distinct_map inj_onD)
qed

text \<open>
  C8. When the resources deployed in the seed namespace of the shoot are listed,
  \<^verbatim>\<open>DeleteStaleContainerRuntimeResources\<close> runs one parallel flow whose tasks are the
  delete requests for the deployed resources whose type is not a type of the container
  runtimes of the shoot, in the order of the list, and nothing else. As the deployed
  resources have distinct names in their namespaces, the delete request for a deployed
  resource is among the tasks exactly when its type is not wanted: a resource of a wanted
  type is not deleted.
\<close>

theorem DeleteStaleContainerRuntimeResources_frame:
  assumes "seedList seedNamespace = Inr deployed"
  shows "\<exists>fns. DeleteStaleContainerRuntimeResources containerRuntimesMap seedNamespace seedList
            = Inr (Parallel fns)
      \<and> fns = map deleteOf
                 (filter (\<lambda>d. crType d \<notin> crType ` snd ` set containerRuntimesMap) deployed)
      \<and> (distinct (map (\<lambda>d. (crNamespace d, crName d)) deployed) \<longrightarrow>
           (\<forall>d \<in> set deployed. deleteOf d \<in> set fns \<longleftrightarrow>
              crType d \<notin> crType ` snd ` set containerRuntimesMap))"
proof -
  let ?w = "crType ` snd ` set containerRuntimesMap"
  let ?fns = "map deleteOf (filter (\<lambda>d. crType d \<notin> ?w) deployed)"
  have r: "DeleteStaleContainerRuntimeResources containerRuntimesMap seedNamespace seedList
            = Inr (Parallel ?fns)"
    using assms
    by (simp add: DeleteStaleContainerRuntimeResources_def wantedLoop_eq staleLoop_eq)
  have f: "deleteOf d \<in> set ?fns \<longleftrightarrow> crType d \<notin> ?w"
    if dist: "distinct (map (\<lambda>d. (crNamespace d, crName d)) deployed)" and d: "d \<in> set deployed" for d
  proof
    assume "deleteOf d \<in> set ?fns"
    then obtain d' where d': "d' \<in> set deployed" "crType d' \<notin> ?w" "deleteOf d = deleteOf d'"
      by auto
    with deleteOf_inj_on_distinct [OF dist d d'(1)] show "crType d \<notin> ?w" by simp
  next
    assume "crType d \<notin> ?w"
    with d show "deleteOf d \<in> set ?fns" by auto
  qed
  from r f show ?thesis by blast
qed

theorem DeleteStaleContainerRuntimeResources_frame_witness:
  "DeleteStaleContainerRuntimeResources
     [(''gvisor'', \<lparr>crName = ''gvisor'', crNamespace = ''shoot--foo--bar'', crType = ''gvisor''\<rparr>)]
     ''shoot--foo--bar''
     (\<lambda>namespace. Inr
        [\<lparr>crName = ''gvisor'', crNamespace = ''shoot--foo--bar'', crType = ''gvisor''\<rparr>,
         \<lparr>crName = ''kata'', crNamespace = ''shoot--foo--bar'', crType = ''kata-containers''\<rparr>])
   = Inr (Parallel [DeleteIgnoreNotFound ''shoot--foo--bar'' ''kata''])"
  using DeleteStaleContainerRuntimeResources_frame [of
     "\<lambda>namespace. Inr
        [\<lparr>crName = ''gvisor'', crNamespace = ''shoot--foo--bar'', crType = ''gvisor''\<rparr>,
         \<lparr>crName = ''kata'', crNamespace = ''shoot--foo--bar'', crType = ''kata-containers''\<rparr>]"
     "''shoot--foo--bar''"
     "[\<lparr>crName = ''gvisor'', crNamespace = ''shoot--foo--bar'', crType = ''gvisor''\<rparr>,
         \<lparr>crName = ''kata'', crNamespace = ''shoot--foo--bar'', crType = ''kata-containers''\<rparr>]"
     "[(''gvisor'', \<lparr>crName = ''gvisor'', crNamespace = ''shoot--foo--bar'', crType = ''gvisor''\<rparr>)]"]
  by (simp add: deleteOf_def)

section \<open>Assignment of the default domain\<close>

lemma assignLoop_Some:
  assumes "find (\<lambda>d. subdomainOf sd d) domains = Some d"
  shows "assignLoop domains shoot project (Some sd) =
     (if sd \<noteq> generatedDomain (shootName shoot) (prName project) d
      then (shoot, Some (BadRequest
        ''shoot uses a default domain but does not match expected scheme: <shoot-name>.<project-name>.<default-domain>''))
      else (shoot, None))"
  using assms
  by (induction domains) (auto simp: subdomainOf_def split: if_splits)

lemma assignLoop_None:
  "assignLoop (d # ds) shoot project None =
     (shoot\<lparr>shootSpec := (shootSpec shoot)
        \<lparr>specDNS := Some ((case specDNS (shootSpec shoot) of
                        None \<Rightarrow> \<lparr>dnsDomain = None, dnsProviders = []\<rparr>
                      | Some dns \<Rightarrow> dns)
            \<lparr>dnsDomain := Some (generatedDomain (shootName shoot) (prName project) d)\<rparr>)\<rparr>\<rparr>, None)"
  by (simp add: Let_def)

lemma generated_subdomain: "subdomainOf (generatedDomain s p d) d"
  by (simp add: subdomainOf_def generatedDomain_def suffix_def)

lemma find_subdomain_ex:
  "find (\<lambda>d. subdomainOf sd d) domains = Some d \<Longrightarrow> list_ex (\<lambda>d. suffix (''.'' @ d) sd) domains"
  by (auto simp: find_Some_iff list_ex_iff subdomainOf_def)

lemma managePrimaryDNSProvider_default:
  assumes "list_ex (\<lambda>d. suffix (''.'' @ d) domain) domains"
  shows "fst (managePrimaryDNSProvider dns domain domains) = dns"
    and "FindPrimaryDNSProvider (dnsProviders dns) = None
          \<Longrightarrow> snd (managePrimaryDNSProvider dns domain domains) = None"
  using assms by (auto simp: managePrimaryDNSProvider_def Let_def)

lemma DNS_Admit_reaches_assign:
  assumes "ready" and "attrKind a = core_Kind ''Shoot''" and "attrObject a = ShootObject shoot"
    and "specSeedName (shootSpec shoot) = Some name"
    and "seedDisablesDNS seedLister name = Inr False"
    and "\<not> ShootUsesUnmanagedDNS shoot"
  shows "DNS_Admit ready seedLister getProject (Inr domains) a =
      (case assignDefaultDomainIfNeeded shoot getProject domains of
        (shoot', Some err) \<Rightarrow> (ShootObject shoot', Some err)
      | (shoot', None) \<Rightarrow>
      (case specDNS (shootSpec shoot') of
        None \<Rightarrow> (ShootObject shoot', Some (BadRequest
          ''shoot domain field .spec.dns.domain must be set if provider != unmanaged and assigned to a seed which does not disable DNS''))
      | Some dns \<Rightarrow>
      (case dnsDomain dns of
        None \<Rightarrow> (ShootObject shoot', Some (BadRequest
          ''shoot domain field .spec.dns.domain must be set if provider != unmanaged and assigned to a seed which does not disable DNS''))
      | Some domain \<Rightarrow>
      (case managePrimaryDNSProvider dns domain domains of
        (dns', err) \<Rightarrow>
          (ShootObject (shoot'\<lparr>shootSpec := (shootSpec shoot')\<lparr>specDNS := Some dns'\<rparr>\<rparr>),
           err)))))"
  using assms by (simp add: DNS_Admit_def)


text \<open>
  C2 (as amended). For a shoot that the plugin processes (the plugin is ready, the seed
  is assigned and does not disable DNS, the shoot does not use the unmanaged provider,
  its project is found): if the shoot specifies no domain and there is a default
  domain, the domain of the shoot becomes
  \<^verbatim>\<open><shoot-name>.<project-name>.<d>\<close> for the first default domain \<open>d\<close>. If the shoot
  specifies a domain that is a subdomain of a default domain, let \<open>d\<close> be the first
  default domain, in the order of the list, of which it is a subdomain: when the domain
  is not exactly \<^verbatim>\<open><shoot-name>.<project-name>.<d>\<close> the request is rejected with a
  bad-request error and the shoot is unchanged; when it is, the shoot is left unchanged,
  and the request passes unless a primary provider is set.
\<close>

theorem DNS_Admit_default_domain:
  assumes "ready" and "attrKind a = core_Kind ''Shoot''" and "attrObject a = ShootObject shoot"
    and "specSeedName (shootSpec shoot) = Some name"
    and "seedDisablesDNS seedLister name = Inr False"
    and "\<not> ShootUsesUnmanagedDNS shoot"
    and "getProject (shootNamespace shoot) = Inr project"
  shows "(shootDomain shoot = None \<and> domains = d # ds \<longrightarrow>
           (\<exists>shoot'. fst (DNS_Admit ready seedLister getProject (Inr domains) a) = ShootObject shoot'
              \<and> shootDomain shoot'
                  = Some (generatedDomain (shootName shoot) (prName project) d)))
    \<and> (shootDomain shoot = Some sd \<and> find (\<lambda>d. subdomainOf sd d) domains = Some d
         \<and> sd \<noteq> generatedDomain (shootName shoot) (prName project) d \<longrightarrow>
           fst (DNS_Admit ready seedLister getProject (Inr domains) a) = ShootObject shoot
           \<and> isBadRequest (snd (DNS_Admit ready seedLister getProject (Inr domains) a)))
    \<and> (shootDomain shoot = Some sd \<and> find (\<lambda>d. subdomainOf sd d) domains = Some d
         \<and> sd = generatedDomain (shootName shoot) (prName project) d \<longrightarrow>
           fst (DNS_Admit ready seedLister getProject (Inr domains) a) = ShootObject shoot
           \<and> (\<forall>dns. specDNS (shootSpec shoot) = Some dns
                  \<and> FindPrimaryDNSProvider (dnsProviders dns) = None \<longrightarrow>
                snd (DNS_Admit ready seedLister getProject (Inr domains) a) = None))"
proof (intro conjI impI)
  note admit = DNS_Admit_reaches_assign [OF assms(1-6), of getProject domains]
  {
    assume h: "shootDomain shoot = None \<and> domains = d # ds"
    let ?gen = "generatedDomain (shootName shoot) (prName project) d"
    let ?dns0 = "case specDNS (shootSpec shoot) of
                        None \<Rightarrow> \<lparr>dnsDomain = None, dnsProviders = []\<rparr>
                      | Some dns \<Rightarrow> dns"
    let ?dns = "?dns0\<lparr>dnsDomain := Some ?gen\<rparr>"
    let ?shoot' = "shoot\<lparr>shootSpec := (shootSpec shoot)\<lparr>specDNS := Some ?dns\<rparr>\<rparr>"
    have as: "assignDefaultDomainIfNeeded shoot getProject domains = (?shoot', None)"
      using h assms(7) by (simp add: assignDefaultDomainIfNeeded_def assignLoop_None)
    have ex: "list_ex (\<lambda>d. suffix (''.'' @ d) ?gen) domains"
      using h generated_subdomain [of "shootName shoot" "prName project" d]
      by (simp add: subdomainOf_def)
    have m: "fst (managePrimaryDNSProvider ?dns ?gen domains) = ?dns"
      by (rule managePrimaryDNSProvider_default(1) [OF ex])
    have "fst (DNS_Admit ready seedLister getProject (Inr domains) a) = ShootObject ?shoot'"
      unfolding admit as using m
      by (cases "managePrimaryDNSProvider ?dns ?gen domains") simp
    moreover have "shootDomain ?shoot' = Some ?gen" by (simp add: shootDomain_def)
    ultimately show "\<exists>shoot'. fst (DNS_Admit ready seedLister getProject (Inr domains) a)
          = ShootObject shoot' \<and> shootDomain shoot' = Some ?gen"
      by blast
  }
  {
    assume h: "shootDomain shoot = Some sd \<and> find (\<lambda>d. subdomainOf sd d) domains = Some d
         \<and> sd \<noteq> generatedDomain (shootName shoot) (prName project) d"
    have as: "assignDefaultDomainIfNeeded shoot getProject domains = (shoot, Some (BadRequest
        ''shoot uses a default domain but does not match expected scheme: <shoot-name>.<project-name>.<default-domain>''))"
      using h assms(7) by (simp add: assignDefaultDomainIfNeeded_def assignLoop_Some)
    show "fst (DNS_Admit ready seedLister getProject (Inr domains) a) = ShootObject shoot"
      and "isBadRequest (snd (DNS_Admit ready seedLister getProject (Inr domains) a))"
      unfolding admit as by simp_all
  }
  {
    assume h: "shootDomain shoot = Some sd \<and> find (\<lambda>d. subdomainOf sd d) domains = Some d
         \<and> sd = generatedDomain (shootName shoot) (prName project) d"
    then obtain dns where dns: "specDNS (shootSpec shoot) = Some dns" "dnsDomain dns = Some sd"
      by (auto simp: shootDomain_def split: option.splits)
    from h have f: "find (\<lambda>d. subdomainOf sd d) domains = Some d"
      and sd: "shootDomain shoot = Some sd"
      and eq: "sd = generatedDomain (shootName shoot) (prName project) d" by blast+
    have "assignLoop domains shoot project (Some sd) = (shoot, None)"
      unfolding assignLoop_Some [OF f] using eq by simp
    then have as: "assignDefaultDomainIfNeeded shoot getProject domains = (shoot, None)"
      using assms(7) by (simp add: assignDefaultDomainIfNeeded_def sd)
    have ex: "list_ex (\<lambda>d. suffix (''.'' @ d) sd) domains"
      using h find_subdomain_ex by blast
    have m: "fst (managePrimaryDNSProvider dns sd domains) = dns"
      by (rule managePrimaryDNSProvider_default(1) [OF ex])
    have same: "shoot\<lparr>shootSpec := (shootSpec shoot)\<lparr>specDNS := Some dns\<rparr>\<rparr> = shoot"
      using dns by simp
    have r: "DNS_Admit ready seedLister getProject (Inr domains) a
        = (ShootObject shoot, snd (managePrimaryDNSProvider dns sd domains))"
      unfolding admit as using m dns same
      by (cases "managePrimaryDNSProvider dns sd domains") simp
    show "fst (DNS_Admit ready seedLister getProject (Inr domains) a) = ShootObject shoot"
      by (simp add: r)
    show "\<forall>dns. specDNS (shootSpec shoot) = Some dns
                  \<and> FindPrimaryDNSProvider (dnsProviders dns) = None \<longrightarrow>
                snd (DNS_Admit ready seedLister getProject (Inr domains) a) = None"
      using managePrimaryDNSProvider_default(2) [OF ex] dns by (simp add: r)
  }
qed


theorem DNS_Admit_default_domain_witness:
  "(\<exists>shoot'. fst (DNS_Admit True
        (\<lambda>n. Inr \<lparr>seedName = ''seed'', seedDeletionTimestamp = None, seedTaintKeys = []\<rparr>)
        (\<lambda>namespace. Inr \<lparr>prName = ''p'', prDeletionTimestamp = None\<rparr>)
        (Inr [''example.com'', ''example.org''])
        \<lparr>attrKind = core_Kind ''Shoot'', attrSubresource = [], attrOperation = Create,
         attrObject = ShootObject
           \<lparr>shootObjectMeta = \<lparr>omName = ''s'', omNamespace = ''garden-p'', omLabels = []\<rparr>,
            shootSpec = \<lparr>specCloudProfileName = ''cp'', specSeedName = Some ''seed'',
              specProviderType = ''aws'', specDNS = None, specKubeAPIServer = None\<rparr>\<rparr>,
         attrOldObject = OtherObject\<rparr>) = ShootObject shoot'
      \<and> shootDomain shoot' = Some ''s.p.example.com'')
   \<and> isBadRequest (snd (DNS_Admit True
        (\<lambda>n. Inr \<lparr>seedName = ''seed'', seedDeletionTimestamp = None, seedTaintKeys = []\<rparr>)
        (\<lambda>namespace. Inr \<lparr>prName = ''p'', prDeletionTimestamp = None\<rparr>)
        (Inr [''example.com'', ''example.org''])
        \<lparr>attrKind = core_Kind ''Shoot'', attrSubresource = [], attrOperation = Create,
         attrObject = ShootObject
           \<lparr>shootObjectMeta = \<lparr>omName = ''s'', omNamespace = ''garden-p'', omLabels = []\<rparr>,
            shootSpec = \<lparr>specCloudProfileName = ''cp'', specSeedName = Some ''seed'',
              specProviderType = ''aws'',
              specDNS = Some \<lparr>dnsDomain = Some ''s.q.example.org'', dnsProviders = []\<rparr>,
              specKubeAPIServer = None\<rparr>\<rparr>,
         attrOldObject = OtherObject\<rparr>))"
proof -
  let ?seedLister = "\<lambda>n. Inr \<lparr>seedName = ''seed'', seedDeletionTimestamp = None, seedTaintKeys = []\<rparr>"
  let ?project = "\<lparr>prName = ''p'', prDeletionTimestamp = None\<rparr>"
  let ?getProject = "\<lambda>namespace. Inr ?project"
  let ?domains = "[''example.com'', ''example.org'']"
  let ?s1 = "\<lparr>shootObjectMeta = \<lparr>omName = ''s'', omNamespace = ''garden-p'', omLabels = []\<rparr>,
            shootSpec = \<lparr>specCloudProfileName = ''cp'', specSeedName = Some ''seed'',
              specProviderType = ''aws'', specDNS = None, specKubeAPIServer = None\<rparr>\<rparr>"
  let ?s2 = "\<lparr>shootObjectMeta = \<lparr>omName = ''s'', omNamespace = ''garden-p'', omLabels = []\<rparr>,
            shootSpec = \<lparr>specCloudProfileName = ''cp'', specSeedName = Some ''seed'',
              specProviderType = ''aws'',
              specDNS = Some \<lparr>dnsDomain = Some ''s.q.example.org'', dnsProviders = []\<rparr>,
              specKubeAPIServer = None\<rparr>\<rparr>"
  let ?a1 = "\<lparr>attrKind = core_Kind ''Shoot'', attrSubresource = [], attrOperation = Create,
         attrObject = ShootObject ?s1, attrOldObject = OtherObject\<rparr>"
  let ?a2 = "\<lparr>attrKind = core_Kind ''Shoot'', attrSubresource = [], attrOperation = Create,
         attrObject = ShootObject ?s2, attrOldObject = OtherObject\<rparr>"
  have seed: "seedDisablesDNS ?seedLister ''seed'' = Inr False"
    by (simp add: seedDisablesDNS_def TaintsHave_def)
  have f: "find (\<lambda>d. subdomainOf ''s.q.example.org'' d) ?domains = Some ''example.org''"
    by (simp add: subdomainOf_def suffix_to_prefix)
  have 1: "\<exists>shoot'. fst (DNS_Admit True ?seedLister ?getProject (Inr ?domains) ?a1) = ShootObject shoot'
      \<and> shootDomain shoot' = Some ''s.p.example.com''"
    using DNS_Admit_default_domain [of True ?a1 ?s1 "''seed''" ?seedLister ?getProject ?project
        ?domains "''example.com''" "[''example.org'']" "''x''"] seed
    by (simp add: ShootUsesUnmanagedDNS_def shootDomain_def generatedDomain_def)
  have 2: "isBadRequest (snd (DNS_Admit True ?seedLister ?getProject (Inr ?domains) ?a2))"
    using DNS_Admit_default_domain [of True ?a2 ?s2 "''seed''" ?seedLister ?getProject ?project
        ?domains "''example.org''" "[]" "''s.q.example.org''"] seed f
    by (simp add: ShootUsesUnmanagedDNS_def shootDomain_def generatedDomain_def)
  from 1 2 show ?thesis by blast
qed

text \<open>
  C2 as stated fails when a default domain is a subdomain of another one: with the
  default domains \<^verbatim>\<open>foo.example.com\<close> and \<^verbatim>\<open>example.com\<close>, in this order, the domain
  \<^verbatim>\<open>s.p.foo.example.com\<close> of the shoot \<^verbatim>\<open>s\<close> of the project \<^verbatim>\<open>p\<close> is a subdomain of
  the default domain \<^verbatim>\<open>example.com\<close> and is not \<^verbatim>\<open>s.p.example.com\<close>, and the request is
  not rejected: the loop returns at the first default domain that is a suffix.
\<close>

theorem DNS_Admit_nested_default_domains_counterexample:
  "subdomainOf ''s.p.foo.example.com'' ''example.com''
   \<and> ''s.p.foo.example.com'' \<noteq> generatedDomain ''s'' ''p'' ''example.com''
   \<and> DNS_Admit True
        (\<lambda>n. Inr \<lparr>seedName = ''seed'', seedDeletionTimestamp = None, seedTaintKeys = []\<rparr>)
        (\<lambda>namespace. Inr \<lparr>prName = ''p'', prDeletionTimestamp = None\<rparr>)
        (Inr [''foo.example.com'', ''example.com''])
        \<lparr>attrKind = core_Kind ''Shoot'', attrSubresource = [], attrOperation = Create,
         attrObject = ShootObject
           \<lparr>shootObjectMeta = \<lparr>omName = ''s'', omNamespace = ''garden-p'', omLabels = []\<rparr>,
            shootSpec = \<lparr>specCloudProfileName = ''cp'', specSeedName = Some ''seed'',
              specProviderType = ''aws'',
              specDNS = Some \<lparr>dnsDomain = Some ''s.p.foo.example.com'', dnsProviders = []\<rparr>,
              specKubeAPIServer = None\<rparr>\<rparr>,
         attrOldObject = OtherObject\<rparr>
     = (ShootObject
           \<lparr>shootObjectMeta = \<lparr>omName = ''s'', omNamespace = ''garden-p'', omLabels = []\<rparr>,
            shootSpec = \<lparr>specCloudProfileName = ''cp'', specSeedName = Some ''seed'',
              specProviderType = ''aws'',
              specDNS = Some \<lparr>dnsDomain = Some ''s.p.foo.example.com'', dnsProviders = []\<rparr>,
              specKubeAPIServer = None\<rparr>\<rparr>, None)"
  by (simp add: subdomainOf_def generatedDomain_def suffix_to_prefix DNS_Admit_def
        seedDisablesDNS_def TaintsHave_def ShootUsesUnmanagedDNS_def
        assignDefaultDomainIfNeeded_def shootDomain_def managePrimaryDNSProvider_def
        FindPrimaryDNSProvider_def)

section \<open>Phase of a project after reconcile\<close>






lemma firstFailure_phase [simp]:
  "firstFailure env (stored\<lparr>projStatusPhase := phase\<rparr>) = firstFailure env stored"
  by (simp add: firstFailure_def stepErrors_def)







section \<open>Conditions of the health checker\<close>

lemma UpdatedCondition_simps [simp]:
  "condStatus (UpdatedCondition c status reason message) = status"
  "condReason (UpdatedCondition c status reason message) = reason"
  by (simp_all add: UpdatedCondition_def)

text \<open>
  C3. For a condition whose type has a threshold: \<^verbatim>\<open>FailedCondition\<close> maps the status
  true to progressing; a progressing condition stays progressing while now minus its
  last transition time is within the threshold, and becomes false outside it. For a
  condition whose type has no threshold, the result has the status false, whatever the
  status was.
\<close>

theorem FailedCondition_thresholds:
  "(conditionThresholds (condType c) = Some threshold \<and> condStatus c = ConditionTrue \<longrightarrow>
       condStatus (FailedCondition conditionThresholds now c reason message)
         = ConditionProgressing)
   \<and> (conditionThresholds (condType c) = Some threshold \<and> condStatus c = ConditionProgressing \<longrightarrow>
       condStatus (FailedCondition conditionThresholds now c reason message)
         = (if now - condLastTransitionTime c \<le> threshold then ConditionProgressing
            else ConditionFalse))
   \<and> (conditionThresholds (condType c) = None \<longrightarrow>
       condStatus (FailedCondition conditionThresholds now c reason message) = ConditionFalse)"
  by (cases "condStatus c") (simp_all add: FailedCondition_def)

theorem FailedCondition_thresholds_witness:
  "condStatus (FailedCondition [''ControlPlaneHealthy'' \<mapsto> 60000000000] 0
      \<lparr>condType = ''ControlPlaneHealthy'', condStatus = ConditionTrue,
        condLastTransitionTime = 0, condReason = [], condMessage = []\<rparr> [] [])
     = ConditionProgressing
   \<and> condStatus (FailedCondition [''ControlPlaneHealthy'' \<mapsto> 60000000000] 0
      \<lparr>condType = ''ControlPlaneHealthy'', condStatus = ConditionProgressing,
        condLastTransitionTime = 0, condReason = [], condMessage = []\<rparr> [] [])
     = ConditionProgressing
   \<and> condStatus (FailedCondition [''ControlPlaneHealthy'' \<mapsto> 60000000000] 61000000000
      \<lparr>condType = ''ControlPlaneHealthy'', condStatus = ConditionProgressing,
        condLastTransitionTime = 0, condReason = [], condMessage = []\<rparr> [] [])
     = ConditionFalse
   \<and> condStatus (FailedCondition Map.empty 0
      \<lparr>condType = ''ControlPlaneHealthy'', condStatus = ConditionTrue,
        condLastTransitionTime = 0, condReason = [], condMessage = []\<rparr> [] [])
     = ConditionFalse"
  using
    FailedCondition_thresholds [of "[''ControlPlaneHealthy'' \<mapsto> 60000000000]"
      "\<lparr>condType = ''ControlPlaneHealthy'', condStatus = ConditionTrue,
        condLastTransitionTime = 0, condReason = [], condMessage = []\<rparr>" 60000000000 0 "[]" "[]"]
    FailedCondition_thresholds [of "[''ControlPlaneHealthy'' \<mapsto> 60000000000]"
      "\<lparr>condType = ''ControlPlaneHealthy'', condStatus = ConditionProgressing,
        condLastTransitionTime = 0, condReason = [], condMessage = []\<rparr>" 60000000000 0 "[]" "[]"]
    FailedCondition_thresholds [of "[''ControlPlaneHealthy'' \<mapsto> 60000000000]"
      "\<lparr>condType = ''ControlPlaneHealthy'', condStatus = ConditionProgressing,
        condLastTransitionTime = 0, condReason = [], condMessage = []\<rparr>" 60000000000 61000000000 "[]" "[]"]
    FailedCondition_thresholds [of Map.empty
      "\<lparr>condType = ''ControlPlaneHealthy'', condStatus = ConditionTrue,
        condLastTransitionTime = 0, condReason = [], condMessage = []\<rparr>" 0 0 "[]" "[]"]
  by simp









end
